theory Spec2Isabelle
  imports Main
begin

section \<open>Data model\<close>

text \<open>
  Dates are ordinal day numbers and timestamps are microseconds since the epoch; a date
  compared with a timestamp column stands for its midnight.  Only the order of dates and
  timestamps is used by the code modelled here.
\<close>

type_synonym date = int
type_synonym datetime = int

definition datetime_of_date :: "date \<Rightarrow> datetime" where
  "datetime_of_date d = d * 86400000000"

subsection \<open>Tables (\<open>app/models\<close>)\<close>

text \<open>The primary key \<open>User.id\<close> is named \<open>user_id\<close>, since \<open>id\<close> is the identity function of HOL.\<close>

record User =
  user_id :: int
  nombre :: string
  email :: string
  passwd :: string
  rol :: string
  activo :: bool

record Warehouse =
  codigo :: int
  descripcion :: string
  activo :: bool

record Product =
  codigo :: int
  sku :: string
  nombre_corto :: string
  descripcion :: "string option"
  id_categoria :: int
  activo :: bool

record Stock =
  codigo_almacen :: int
  codigo_producto :: int
  lote :: string
  fecha_cad :: "date option"
  cantidad :: int

record Movement =
  id_mov :: int
  fecha :: datetime
  tipo :: string
  id_usuario :: int

record MovementLine =
  id_mov :: int
  id_linea :: int
  codigo_almacen :: int
  codigo_producto :: int
  lote :: string
  fecha_cad :: "date option"
  cantidad :: int

text \<open>The committed contents of the database, one list of rows per table.\<close>

record db =
  usuario :: "User list"
  almacen :: "Warehouse list"
  producto :: "Product list"
  stock :: "Stock list"
  movimientos :: "Movement list"
  movimientos_lineas :: "MovementLine list"

subsection \<open>Request and response schemas (\<open>app/schemas\<close>)\<close>

text \<open>
  \<open>MovementLineCreate\<close> adds nothing to \<open>MovementLineBase\<close>.  A request that omits
  \<open>lote\<close> arrives with the field's default \<open>Some ''SIN_LOTE''\<close>; an explicit null arrives
  as \<open>None\<close>.
\<close>

record MovementLineBase =
  codigo_almacen :: int
  codigo_producto :: int
  lote :: "string option"
  fecha_cad :: "date option"
  cantidad :: int

type_synonym MovementLineCreate = MovementLineBase

record MovementLineResponse = MovementLineBase +
  id_mov :: int
  id_linea :: int

record MovementBase =
  tipo :: string
  id_usuario :: int

record MovementCreate = MovementBase +
  lineas :: "MovementLineCreate list"

record MovementResponse = MovementBase +
  id_mov :: int
  fecha :: datetime
  nombre_usuario :: string
  lineas :: "MovementLineResponse list"

subsection \<open>Exceptions and HTTP errors\<close>

text \<open>
  \<open>IntegrityError\<close> (a uniqueness or foreign-key violation) and \<open>OperationalError\<close> (a
  connectivity failure) are the two subclasses of \<open>SQLAlchemyError\<close> a database call
  raises; \<open>Exception\<close> stands for every other exception.  Each carries its message, which
  for a \<open>SQLAlchemyError\<close> is that of the driver's error it wraps (\<open>e.orig\<close>) when there
  is one.
\<close>

datatype exn = IntegrityError string | OperationalError string | Exception string

fun is_SQLAlchemyError :: "exn \<Rightarrow> bool" where
  "is_SQLAlchemyError (IntegrityError m) = True"
| "is_SQLAlchemyError (OperationalError m) = True"
| "is_SQLAlchemyError (Exception m) = False"

fun str_exn :: "exn \<Rightarrow> string" where
  "str_exn (IntegrityError m) = m"
| "str_exn (OperationalError m) = m"
| "str_exn (Exception m) = m"

text \<open>
  The \<open>detail\<close> of an \<open>HTTPException\<close>.  One constructor per message of the source; the
  values interpolated into a formatted message are the constructor's arguments.
  \<^item> \<open>Otro_usuario\<close>: "No puedes registrar un movimiento para otro usuario."
  \<^item> \<open>Sin_lineas\<close>: "El movimiento debe contener al menos una linea."
  \<^item> \<open>Fecha_vencida p l d\<close>: "La linea con producto p, lote 'l', tiene una fecha de
    caducidad vencida o del dia actual: d."
  \<^item> \<open>Maximo_lineas\<close>: "El numero maximo de lineas permitidas es 100."
  \<^item> \<open>Almacenes_no_existen s\<close>: "Los siguientes almacenes: s no existen"
  \<^item> \<open>Productos_no_existen s\<close>: "Los siguientes productos: s no existen"
  \<^item> \<open>Error_de_integridad m\<close>: "Error de integridad: m"
  \<^item> \<open>Error_base_de_datos\<close>: "Error en la base de datos."
  \<^item> \<open>Error_usuario_asociado\<close>: "Error al obtener el usuario asociado al movimiento"
  \<^item> \<open>Error_lineas_movimiento\<close>: "Error al obtener las lineas del movimiento"
  \<^item> \<open>Error_de_conexion\<close>: "Error de conexion con la base de datos"
  \<^item> \<open>Movimiento_no_encontrado\<close>: "Movimiento no encontrado"
  \<^item> \<open>Sin_permisos_movimiento\<close>: "No tienes permisos para ver este movimiento"
  \<^item> \<open>Sin_permisos_accion\<close>: "No tienes permisos para realizar esta accion."
  \<^item> \<open>Almacen_no_encontrado\<close>: "Almacen no encontrado"
  \<^item> \<open>Almacen_no_vacio c\<close>: "El almacen c, no esta vacio y por tanto no se puede inactivar."
\<close>

datatype detail =
    Otro_usuario
  | Sin_lineas
  | Fecha_vencida int "string option" date
  | Maximo_lineas
  | Almacenes_no_existen "int set"
  | Productos_no_existen "int set"
  | Error_de_integridad string
  | Error_base_de_datos
  | Error_usuario_asociado
  | Error_lineas_movimiento
  | Error_de_conexion
  | Movimiento_no_encontrado
  | Sin_permisos_movimiento
  | Sin_permisos_accion
  | Almacen_no_encontrado
  | Almacen_no_vacio int

text \<open>
  What a request handler raises: an \<open>HTTPException\<close> with its status code and detail, or
  any other exception, which leaves the handler uncaught.
\<close>

datatype failure = HTTPException nat detail | Raised exn

subsection \<open>The environment of a request\<close>

text \<open>
  Everything a handler reads that is not its arguments: the current date and time, the
  identifier the database generates for an inserted movement, which database calls fail,
  and which connections fail on \<open>send_text\<close>.  The database calls of one request are
  numbered in the order the handler makes them; \<open>fault n = Some e\<close> means that call \<open>n\<close>
  raises \<open>e\<close>.  A \<open>WebSocket\<close> is identified by a number; \<open>send_text c = Some e\<close> means
  that sending to connection \<open>c\<close> raises \<open>e\<close>.  \<open>search_matches name s\<close> is the database's
  verdict on \<open>lower(name) ILIKE '%' || s.lower() || '%'\<close>, and \<open>collation a b\<close> tells whether
  the database sorts the string \<open>a\<close> no later than \<open>b\<close>.
\<close>

type_synonym WebSocket = nat

record env =
  today :: date
  now :: datetime
  generated_id :: int
  fault :: "nat \<Rightarrow> exn option"
  send_text :: "WebSocket \<Rightarrow> exn option"
  search_matches :: "string \<Rightarrow> string \<Rightarrow> bool"
  collation :: "string \<Rightarrow> string \<Rightarrow> bool"

section \<open>\<open>app/utils/validation.py\<close>\<close>

text \<open>
  \<open>str.lower\<close> on ASCII letters.  No character outside ASCII lowers to a letter of
  \<open>admin\<close>, so the comparison below is exact for every string.
\<close>

definition lower_char :: "char \<Rightarrow> char" where
  "lower_char c =
     (case map_of (zip ''ABCDEFGHIJKLMNOPQRSTUVWXYZ'' ''abcdefghijklmnopqrstuvwxyz'') c of
        Some d \<Rightarrow> d
      | None \<Rightarrow> c)"

definition lower :: "string \<Rightarrow> string" where
  "lower s = map lower_char s"

definition is_admin_user :: "'a User_scheme \<Rightarrow> bool" where
  "is_admin_user user = (lower (rol user) = ''admin'')"

section \<open>\<open>app/routers/websocket.py\<close>\<close>

text \<open>
  The manager keeps the list \<open>active_connections\<close>.  Whether \<open>send_text\<close> on a connection
  raises is a property of the connection's peer, passed to \<open>broadcast\<close> as a function.
\<close>

record ConnectionManager =
  active_connections :: "WebSocket list"

text \<open>\<open>connect\<close>, once \<open>websocket.accept()\<close> has returned.\<close>

definition connect :: "ConnectionManager \<Rightarrow> WebSocket \<Rightarrow> ConnectionManager" where
  "connect self websocket =
     self\<lparr>active_connections := active_connections self @ [websocket]\<rparr>"

text \<open>\<open>list.remove\<close> deletes the first occurrence and raises \<open>ValueError\<close> when there is none.\<close>

definition disconnect :: "ConnectionManager \<Rightarrow> WebSocket \<Rightarrow> exn + ConnectionManager" where
  "disconnect self websocket =
     (if websocket \<in> set (active_connections self)
      then Inr (self\<lparr>active_connections := remove1 websocket (active_connections self)\<rparr>)
      else Inl (Exception ''ValueError''))"

text \<open>
  The loop of \<open>broadcast\<close> over the connections still to be served.  It returns the
  deliveries made, in order, and the exception that ended the loop, if any: the loop has no
  handler, so the first \<open>send_text\<close> that raises ends it.
\<close>

fun broadcast_loop ::
  "(WebSocket \<Rightarrow> exn option) \<Rightarrow> WebSocket list \<Rightarrow> 'm \<Rightarrow> (WebSocket \<times> 'm) list \<times> exn option" where
  "broadcast_loop snd_text [] message = ([], None)"
| "broadcast_loop snd_text (connection # rest) message =
     (case snd_text connection of
        Some e \<Rightarrow> ([], Some e)
      | None \<Rightarrow>
          (case broadcast_loop snd_text rest message of
             (delivered, r) \<Rightarrow> ((connection, message) # delivered, r)))"

definition broadcast ::
  "(WebSocket \<Rightarrow> exn option) \<Rightarrow> ConnectionManager \<Rightarrow> 'm \<Rightarrow> (WebSocket \<times> 'm) list \<times> exn option" where
  "broadcast snd_text self message = broadcast_loop snd_text (active_connections self) message"

section \<open>\<open>app/routers/movements.py\<close>: \<open>create_movement\<close>\<close>

text \<open>The text broadcast after a creation: "Nuevo movimiento registrado: id (tipo)".\<close>

datatype mensaje = Nuevo_movimiento_registrado int string

text \<open>\<open>x or default\<close> on an optional string: \<open>None\<close> and the empty string are false.\<close>

definition or_str :: "string option \<Rightarrow> string \<Rightarrow> string" where
  "or_str x dflt = (case x of None \<Rightarrow> dflt | Some s \<Rightarrow> if s = [] then dflt else s)"

text \<open>\<open>.first()\<close> of a query result.\<close>

definition first :: "'a list \<Rightarrow> 'a option" where
  "first rows = (case rows of [] \<Rightarrow> None | r # _ \<Rightarrow> Some r)"

text \<open>The first line of an exception's message: \<open>msg.split("\n")[0]\<close>.\<close>

definition first_line :: "string \<Rightarrow> string" where
  "first_line msg = takeWhile (\<lambda>c. c \<noteq> CHR 0x0A) msg"

text \<open>
  The loop that refuses expired lots (lines 251 to 264): the first line whose expiration
  date is set and not after today, in an \<open>entrada\<close>, raises.
\<close>

fun check_fecha_cad :: "date \<Rightarrow> string \<Rightarrow> MovementLineCreate list \<Rightarrow> failure option" where
  "check_fecha_cad hoy tp [] = None"
| "check_fecha_cad hoy tp (linea # rest) =
     (case MovementLineBase.fecha_cad linea of
        Some d \<Rightarrow>
          if d \<le> hoy \<and> tp = ''entrada''
          then Some (HTTPException 400
                 (Fecha_vencida (MovementLineBase.codigo_producto linea) (MovementLineBase.lote linea) d))
          else check_fecha_cad hoy tp rest
      | None \<Rightarrow> check_fecha_cad hoy tp rest)"

text \<open>The checks made before the database is touched (lines 239 to 271), in order.\<close>

definition create_movement_checks :: "env \<Rightarrow> MovementCreate \<Rightarrow> User \<Rightarrow> failure option" where
  "create_movement_checks e movement_data current_user =
     (if \<not> is_admin_user current_user
         \<and> MovementBase.id_usuario movement_data \<noteq> user_id current_user
      then Some (HTTPException 403 Otro_usuario)
      else if MovementCreate.lineas movement_data = []
      then Some (HTTPException 400 Sin_lineas)
      else case check_fecha_cad (today e) (MovementBase.tipo movement_data)
                  (MovementCreate.lineas movement_data) of
             Some f \<Rightarrow> Some f
           | None \<Rightarrow>
               if length (MovementCreate.lineas movement_data) > 100
               then Some (HTTPException 400 Maximo_lineas)
               else None)"

text \<open>The lines built by the loop over \<open>enumerate(movement_data.lineas, 1)\<close> (lines 313 to 325).\<close>

definition new_lines :: "int \<Rightarrow> MovementLineCreate list \<Rightarrow> MovementLine list" where
  "new_lines mov_id lns =
     map (\<lambda>(i, line_data).
            \<lparr>MovementLine.id_mov = mov_id,
             MovementLine.id_linea = int i,
             MovementLine.codigo_almacen = MovementLineBase.codigo_almacen line_data,
             MovementLine.codigo_producto = MovementLineBase.codigo_producto line_data,
             MovementLine.lote = or_str (MovementLineBase.lote line_data) ''SIN_LOTE'',
             MovementLine.fecha_cad = MovementLineBase.fecha_cad line_data,
             MovementLine.cantidad = MovementLineBase.cantidad line_data\<rparr>)
         (enumerate 1 lns)"

text \<open>
  The header (lines 274 to 277) as the flush inserts it: \<open>fecha\<close> comes from the model's
  default factory \<open>datetime.now\<close> and \<open>id_mov\<close> is generated by the database.
\<close>

definition new_movement :: "env \<Rightarrow> MovementCreate \<Rightarrow> Movement" where
  "new_movement e movement_data =
     \<lparr>Movement.id_mov = generated_id e,
      Movement.fecha = now e,
      Movement.tipo = MovementBase.tipo movement_data,
      Movement.id_usuario = MovementBase.id_usuario movement_data\<rparr>"

text \<open>
  The body of the \<open>try\<close> (lines 280 to 327).  Database calls: 0 is the flush that inserts
  the header, 1 the query of the active warehouses, 2 the query of the active products,
  3 the commit (which inserts the lines).  The result is what the body raises, or the
  database as committed.
\<close>

definition create_movement_try :: "env \<Rightarrow> db \<Rightarrow> MovementCreate \<Rightarrow> failure + db" where
  "create_movement_try e d movement_data =
     (case fault e 0 of
        Some x \<Rightarrow> Inl (Raised x)
      | None \<Rightarrow>
     let almacenes = map MovementLineBase.codigo_almacen (MovementCreate.lineas movement_data);
         productos = map MovementLineBase.codigo_producto (MovementCreate.lineas movement_data)
     in
     (case fault e 1 of
        Some x \<Rightarrow> Inl (Raised x)
      | None \<Rightarrow>
     let almacenes_activos =
           map Warehouse.codigo
             (filter (\<lambda>w. Warehouse.codigo w \<in> set almacenes \<and> Warehouse.activo w) (almacen d));
         diff = set almacenes - set almacenes_activos
     in
     if diff \<noteq> {} then Inl (HTTPException 400 (Almacenes_no_existen diff))
     else
     (case fault e 2 of
        Some x \<Rightarrow> Inl (Raised x)
      | None \<Rightarrow>
     let productos_activos =
           map Product.codigo
             (filter (\<lambda>p. Product.codigo p \<in> set productos \<and> Product.activo p) (producto d));
         diff = set productos - set productos_activos
     in
     if diff \<noteq> {} then Inl (HTTPException 400 (Productos_no_existen diff))
     else
     (case fault e 3 of
        Some x \<Rightarrow> Inl (Raised x)
      | None \<Rightarrow>
          Inr (d\<lparr>movimientos := movimientos d @ [new_movement e movement_data],
                 movimientos_lineas := movimientos_lineas d
                   @ new_lines (Movement.id_mov (new_movement e movement_data))
                       (MovementCreate.lineas movement_data)\<rparr>)))))"

text \<open>
  The \<open>except\<close> clauses (lines 328 to 343), in the order of the source.  Each rolls the
  transaction back, so that the caller keeps the database it had.
\<close>

definition create_movement_except :: "failure \<Rightarrow> failure" where
  "create_movement_except f =
     (case f of
        Raised x \<Rightarrow>
          if is_SQLAlchemyError x
          then HTTPException 400 (Error_de_integridad (first_line (str_exn x)))
          else HTTPException 500 Error_base_de_datos
      | HTTPException s dt \<Rightarrow> HTTPException s dt)"

definition model_validate :: "MovementLine \<Rightarrow> MovementLineResponse" where
  "model_validate line =
     \<lparr>MovementLineBase.codigo_almacen = MovementLine.codigo_almacen line,
      MovementLineBase.codigo_producto = MovementLine.codigo_producto line,
      MovementLineBase.lote = Some (MovementLine.lote line),
      MovementLineBase.fecha_cad = MovementLine.fecha_cad line,
      MovementLineBase.cantidad = MovementLine.cantidad line,
      MovementLineResponse.id_mov = MovementLine.id_mov line,
      MovementLineResponse.id_linea = MovementLine.id_linea line\<rparr>"

text \<open>
  What a request leaves behind: its response or failure, the committed database, the
  messages handed to \<open>manager.broadcast\<close>, and the deliveries made to connections.
\<close>

record outcome =
  result :: "failure + MovementResponse"
  store :: db
  broadcasts :: "mensaje list"
  sent :: "(WebSocket \<times> mensaje) list"

text \<open>
  The handler.  After the commit, call 4 reads the user's name and call 5 reads the lines
  back (lines 345 to 365); a \<open>SQLAlchemyError\<close> of either is answered with 500, and no other
  exception is caught there.  The broadcast (lines 367 to 384) runs inside a \<open>try\<close> whose
  handler catches every exception and only prints it.
\<close>

definition create_movement ::
  "env \<Rightarrow> ConnectionManager \<Rightarrow> db \<Rightarrow> MovementCreate \<Rightarrow> User \<Rightarrow> outcome" where
  "create_movement e manager d movement_data current_user =
     (case create_movement_checks e movement_data current_user of
        Some f \<Rightarrow> \<lparr>result = Inl f, store = d, broadcasts = [], sent = []\<rparr>
      | None \<Rightarrow>
     (case create_movement_try e d movement_data of
        Inl f \<Rightarrow> \<lparr>result = Inl (create_movement_except f), store = d, broadcasts = [], sent = []\<rparr>
      | Inr d' \<Rightarrow>
     (case fault e 4 of
        Some x \<Rightarrow>
          \<lparr>result = Inl (if is_SQLAlchemyError x then HTTPException 500 Error_usuario_asociado
                          else Raised x),
           store = d', broadcasts = [], sent = []\<rparr>
      | None \<Rightarrow>
     let nombre_usuario =
           first (map User.nombre
                    (filter (\<lambda>u. user_id u = MovementBase.id_usuario movement_data) (db.usuario d')))
     in
     (case fault e 5 of
        Some x \<Rightarrow>
          \<lparr>result = Inl (if is_SQLAlchemyError x then HTTPException 500 Error_de_conexion
                          else Raised x),
           store = d', broadcasts = [], sent = []\<rparr>
      | None \<Rightarrow>
     let movement_lines =
           filter (\<lambda>l. MovementLine.id_mov l = Movement.id_mov (new_movement e movement_data))
             (movimientos_lineas d');
         mensaje = Nuevo_movimiento_registrado (Movement.id_mov (new_movement e movement_data))
                     (Movement.tipo (new_movement e movement_data))
     in
     \<lparr>result = Inr
        \<lparr>MovementBase.tipo = Movement.tipo (new_movement e movement_data),
         MovementBase.id_usuario = Movement.id_usuario (new_movement e movement_data),
         MovementResponse.id_mov = Movement.id_mov (new_movement e movement_data),
         MovementResponse.fecha = Movement.fecha (new_movement e movement_data),
         MovementResponse.nombre_usuario = or_str nombre_usuario ''Desconocido'',
         MovementResponse.lineas = map model_validate movement_lines\<rparr>,
      store = d',
      broadcasts = [mensaje],
      sent = fst (broadcast (send_text e) manager mensaje)\<rparr>))))"

section \<open>\<open>app/routers/movements.py\<close>: the read side\<close>

text \<open>
  What a handler answers when a database call raises inside a \<open>try\<close> whose only handler
  is \<open>except SQLAlchemyError\<close>: the handler's HTTP error for a \<open>SQLAlchemyError\<close>, the
  exception itself otherwise.
\<close>

definition except_SQLAlchemyError :: "exn \<Rightarrow> failure \<Rightarrow> failure" where
  "except_SQLAlchemyError x f = (if is_SQLAlchemyError x then f else Raised x)"

text \<open>
  \<open>order_by(Movement.fecha.desc())\<close>: rows sorted by decreasing timestamp.  SQL leaves the
  order of rows with equal timestamps open; the model keeps them in table order.
\<close>

definition order_by_fecha_desc :: "('r \<Rightarrow> datetime) \<Rightarrow> 'r list \<Rightarrow> 'r list" where
  "order_by_fecha_desc fecha_of rows = sort_key (\<lambda>r. - fecha_of r) rows"

record PaginatedMovementsResponse =
  data :: "MovementResponse list"
  total :: nat
  limit :: nat
  offset :: nat

text \<open>
  The statement of \<open>get_movements\<close> (lines 47 to 68): movements joined with their users,
  then one \<open>where\<close> per filter that applies.  \<open>if search\<close> and \<open>if usuario_id\<close> are false
  for \<open>None\<close>, for the empty string and for 0.
\<close>

definition get_movements_statement ::
  "env \<Rightarrow> db \<Rightarrow> User \<Rightarrow> string option \<Rightarrow> string option \<Rightarrow> date option \<Rightarrow> date option
     \<Rightarrow> int option \<Rightarrow> (Movement \<times> string) list" where
  "get_movements_statement e d current_user search tp fecha_desde fecha_hasta usuario_id =
     (let statement =
            [(m, User.nombre u). m \<leftarrow> movimientos d, u \<leftarrow> db.usuario d,
                                 Movement.id_usuario m = user_id u];
          statement =
            (case search of
               Some s \<Rightarrow> if s \<noteq> [] then filter (\<lambda>(m, n). search_matches e n s) statement
                         else statement
             | None \<Rightarrow> statement);
          statement =
            (case tp of
               Some t \<Rightarrow> if t = ''entrada'' \<or> t = ''salida''
                         then filter (\<lambda>(m, n). Movement.tipo m = t) statement
                         else statement
             | None \<Rightarrow> statement);
          statement =
            (case fecha_desde of
               Some fd \<Rightarrow> filter (\<lambda>(m, n). Movement.fecha m \<ge> datetime_of_date fd) statement
             | None \<Rightarrow> statement);
          statement =
            (case fecha_hasta of
               Some fh \<Rightarrow> filter (\<lambda>(m, n). Movement.fecha m \<le> datetime_of_date fh) statement
             | None \<Rightarrow> statement);
          statement =
            (case usuario_id of
               Some uid \<Rightarrow> if uid \<noteq> 0 \<and> is_admin_user current_user
                           then filter (\<lambda>(m, n). Movement.id_usuario m = uid) statement
                           else statement
             | None \<Rightarrow> statement);
          statement =
            (if \<not> is_admin_user current_user
             then filter (\<lambda>(m, n). Movement.id_usuario m = user_id current_user) statement
             else statement)
      in statement)"

text \<open>
  The loop over the page (lines 86 to 110): database call \<open>n\<close> reads the lines of the first
  movement left, ordered by \<open>id_linea\<close>.
\<close>

fun movements_response ::
  "env \<Rightarrow> db \<Rightarrow> nat \<Rightarrow> (Movement \<times> string) list \<Rightarrow> failure + MovementResponse list" where
  "movements_response e d n [] = Inr []"
| "movements_response e d n ((movement, nombre_usr) # rest) =
     (case fault e n of
        Some x \<Rightarrow> Inl (except_SQLAlchemyError x (HTTPException 500 Error_de_conexion))
      | None \<Rightarrow>
          (let movement_lines =
                 sort_key MovementLine.id_linea
                   (filter (\<lambda>l. MovementLine.id_mov l = Movement.id_mov movement)
                      (movimientos_lineas d))
           in case movements_response e d (Suc n) rest of
                Inl f \<Rightarrow> Inl f
              | Inr rs \<Rightarrow>
                  Inr (\<lparr>MovementBase.tipo = Movement.tipo movement,
                        MovementBase.id_usuario = Movement.id_usuario movement,
                        MovementResponse.id_mov = Movement.id_mov movement,
                        MovementResponse.fecha = Movement.fecha movement,
                        MovementResponse.nombre_usuario = nombre_usr,
                        MovementResponse.lineas = map model_validate movement_lines\<rparr> # rs)))"

text \<open>
  \<open>get_movements\<close>.  Database call 0 reads the page, call 1 counts the rows of the
  statement, calls 2 and up read the lines.  \<open>limit\<close> and \<open>offset\<close> are natural numbers:
  the framework refuses a request outside \<open>1 \<le> limit \<le> 1000\<close>, \<open>0 \<le> offset\<close> before the
  handler runs.
\<close>

definition get_movements ::
  "env \<Rightarrow> db \<Rightarrow> User \<Rightarrow> nat \<Rightarrow> nat \<Rightarrow> string option \<Rightarrow> string option \<Rightarrow> date option
     \<Rightarrow> date option \<Rightarrow> int option \<Rightarrow> failure + PaginatedMovementsResponse" where
  "get_movements e d current_user lim off search tp fecha_desde fecha_hasta usuario_id =
     (let statement =
            get_movements_statement e d current_user search tp fecha_desde fecha_hasta usuario_id
      in
      case fault e 0 of
        Some x \<Rightarrow> Inl (except_SQLAlchemyError x (HTTPException 500 Error_de_conexion))
      | None \<Rightarrow>
     (let results = take lim (drop off (order_by_fecha_desc (\<lambda>(m, n). Movement.fecha m) statement))
      in
      case fault e 1 of
        Some x \<Rightarrow> Inl (except_SQLAlchemyError x (HTTPException 500 Error_de_conexion))
      | None \<Rightarrow>
     (let total_records = length statement
      in
      case movements_response e d 2 results of
        Inl f \<Rightarrow> Inl f
      | Inr movements_resp \<Rightarrow>
          Inr \<lparr>data = movements_resp, total = total_records, limit = lim, offset = off\<rparr>)))"

text \<open>
  \<open>get_movement\<close> (lines 159 to 220).  Call 0 reads the movement, call 1 the user's name,
  call 2 the lines.
\<close>

definition get_movement :: "env \<Rightarrow> db \<Rightarrow> int \<Rightarrow> User \<Rightarrow> failure + MovementResponse" where
  "get_movement e d mov_id current_user =
     (case fault e 0 of
        Some x \<Rightarrow> Inl (except_SQLAlchemyError x (HTTPException 500 Error_de_conexion))
      | None \<Rightarrow>
     (case first (filter (\<lambda>m. Movement.id_mov m = mov_id) (movimientos d)) of
        None \<Rightarrow> Inl (HTTPException 404 Movimiento_no_encontrado)
      | Some movement \<Rightarrow>
     if \<not> is_admin_user current_user \<and> Movement.id_usuario movement \<noteq> user_id current_user
     then Inl (HTTPException 403 Sin_permisos_movimiento)
     else
     (case fault e 1 of
        Some x \<Rightarrow> Inl (except_SQLAlchemyError x (HTTPException 500 Error_usuario_asociado))
      | None \<Rightarrow>
     (let usr = first (map User.nombre
                        (filter (\<lambda>u. user_id u = Movement.id_usuario movement) (db.usuario d)))
      in
      case fault e 2 of
        Some x \<Rightarrow> Inl (except_SQLAlchemyError x (HTTPException 500 Error_lineas_movimiento))
      | None \<Rightarrow>
     (let movement_lines =
            filter (\<lambda>l. MovementLine.id_mov l = Movement.id_mov movement) (movimientos_lineas d)
      in
      Inr \<lparr>MovementBase.tipo = Movement.tipo movement,
           MovementBase.id_usuario = Movement.id_usuario movement,
           MovementResponse.id_mov = Movement.id_mov movement,
           MovementResponse.fecha = Movement.fecha movement,
           MovementResponse.nombre_usuario = or_str usr ''Desconocido'',
           MovementResponse.lineas = map model_validate movement_lines\<rparr>)))))"

section \<open>\<open>app/routers/stock.py\<close>: the histories of stock movements\<close>

text \<open>
  The rows of the history keep the movement's identifier, not its owner.  Rows of the
  database are taken to satisfy the field constraints of the response schema.
\<close>

record StockHistory =
  id_movimiento :: int
  fecha :: datetime
  tipo :: string
  codigo_almacen :: int
  codigo_producto :: int
  sku_producto :: string
  lote :: string
  cantidad :: int
  usuario :: string

record PaginatedStockHistory =
  data :: "StockHistory list"
  total :: nat
  limit :: nat
  offset :: nat

text \<open>
  The statement (lines 364 to 384): movements joined with their lines, their user and the
  line's product, newest first.  No \<open>where\<close> mentions \<open>current_user\<close>.
\<close>

definition get_stock_history_statement :: "db \<Rightarrow> StockHistory list" where
  "get_stock_history_statement d =
     order_by_fecha_desc StockHistory.fecha
       [\<lparr>StockHistory.id_movimiento = Movement.id_mov m,
         StockHistory.fecha = Movement.fecha m,
         StockHistory.tipo = Movement.tipo m,
         StockHistory.codigo_almacen = MovementLine.codigo_almacen l,
         StockHistory.codigo_producto = MovementLine.codigo_producto l,
         StockHistory.sku_producto = Product.sku p,
         StockHistory.lote = MovementLine.lote l,
         StockHistory.cantidad = MovementLine.cantidad l,
         StockHistory.usuario = User.nombre u\<rparr>.
        m \<leftarrow> movimientos d,
        l \<leftarrow> movimientos_lineas d, Movement.id_mov m = MovementLine.id_mov l,
        u \<leftarrow> db.usuario d, Movement.id_usuario m = user_id u,
        p \<leftarrow> producto d, Product.codigo p = MovementLine.codigo_producto l]"

text \<open>\<open>get_stock_history\<close>: call 0 reads the page, call 1 counts the rows.\<close>

definition get_stock_history ::
  "env \<Rightarrow> db \<Rightarrow> User \<Rightarrow> nat \<Rightarrow> nat \<Rightarrow> failure + PaginatedStockHistory" where
  "get_stock_history e d current_user lim off =
     (let statement = get_stock_history_statement d
      in
      case fault e 0 of
        Some x \<Rightarrow> Inl (except_SQLAlchemyError x (HTTPException 500 Error_de_conexion))
      | None \<Rightarrow>
     (let history = take lim (drop off statement)
      in
      case fault e 1 of
        Some x \<Rightarrow> Inl (except_SQLAlchemyError x (HTTPException 500 Error_de_conexion))
      | None \<Rightarrow>
          Inr \<lparr>PaginatedStockHistory.data = history,
               PaginatedStockHistory.total = length statement,
               PaginatedStockHistory.limit = lim,
               PaginatedStockHistory.offset = off\<rparr>))"

subsection \<open>The histories of a product and of a warehouse\<close>

text \<open>
  \<open>order_by(Movement.fecha.desc(), MovementLine.lote)\<close>: rows sorted by decreasing
  timestamp and, within one timestamp, by lot in the order of the database's collation.
  The sort inserts each row before the first row it may precede.
\<close>

fun insert_row :: "('r \<Rightarrow> 'r \<Rightarrow> bool) \<Rightarrow> 'r \<Rightarrow> 'r list \<Rightarrow> 'r list" where
  "insert_row before r [] = [r]"
| "insert_row before r (r' # rows) =
     (if before r r' then r # r' # rows else r' # insert_row before r rows)"

definition order_by :: "('r \<Rightarrow> 'r \<Rightarrow> bool) \<Rightarrow> 'r list \<Rightarrow> 'r list" where
  "order_by before rows = foldr (insert_row before) rows []"

definition fecha_desc_lote :: "env \<Rightarrow> StockHistory \<Rightarrow> StockHistory \<Rightarrow> bool" where
  "fecha_desc_lote e r r' =
     (StockHistory.fecha r > StockHistory.fecha r'
      \<or> (StockHistory.fecha r = StockHistory.fecha r'
          \<and> collation e (StockHistory.lote r) (StockHistory.lote r')))"

text \<open>
  \<open>get_product_stock_history\<close> (lines 417 to 476): the history WH \<Rightarrow> int.  Call 0 reads the page, call 1 counts the
  rows.  No \<open>where\<close> mentions \<open>current_user\<close>.
\<close>

definition get_product_stock_history_statement :: "env \<Rightarrow> db \<Rightarrow> int \<Rightarrow> StockHistory list" where
  "get_product_stock_history_statement e d cod_producto =
     order_by (fecha_desc_lote e)
       [\<lparr>StockHistory.id_movimiento = Movement.id_mov m,
         StockHistory.fecha = Movement.fecha m,
         StockHistory.tipo = Movement.tipo m,
         StockHistory.codigo_almacen = MovementLine.codigo_almacen l,
         StockHistory.codigo_producto = MovementLine.codigo_producto l,
         StockHistory.sku_producto = Product.sku p,
         StockHistory.lote = MovementLine.lote l,
         StockHistory.cantidad = MovementLine.cantidad l,
         StockHistory.usuario = User.nombre u\<rparr>.
        m \<leftarrow> movimientos d,
        l \<leftarrow> movimientos_lineas d, Movement.id_mov m = MovementLine.id_mov l,
        u \<leftarrow> db.usuario d, Movement.id_usuario m = user_id u,
        p \<leftarrow> producto d, Product.codigo p = MovementLine.codigo_producto l,
        Product.codigo p = cod_producto]"

definition get_product_stock_history ::
  "env \<Rightarrow> db \<Rightarrow> int \<Rightarrow> User \<Rightarrow> nat \<Rightarrow> nat \<Rightarrow> failure + PaginatedStockHistory" where
  "get_product_stock_history e d cod_producto current_user lim off =
     (let statement = get_product_stock_history_statement e d cod_producto
      in
      case fault e 0 of
        Some x \<Rightarrow> Inl (except_SQLAlchemyError x (HTTPException 500 Error_de_conexion))
      | None \<Rightarrow>
     (let history = take lim (drop off statement)
      in
      case fault e 1 of
        Some x \<Rightarrow> Inl (except_SQLAlchemyError x (HTTPException 500 Error_de_conexion))
      | None \<Rightarrow>
          Inr \<lparr>PaginatedStockHistory.data = history,
               PaginatedStockHistory.total = length statement,
               PaginatedStockHistory.limit = lim,
               PaginatedStockHistory.offset = off\<rparr>))"

text \<open>
  \<open>get_warehouse_stock_history\<close> (lines 479 to 536): the history WH \<Rightarrow> int.  Call 0 reads the page, call 1 counts the
  rows.  No \<open>where\<close> mentions \<open>current_user\<close>.
\<close>

definition get_warehouse_stock_history_statement :: "env \<Rightarrow> db \<Rightarrow> int \<Rightarrow> StockHistory list" where
  "get_warehouse_stock_history_statement e d cod_almacen =
     order_by (fecha_desc_lote e)
       [\<lparr>StockHistory.id_movimiento = Movement.id_mov m,
         StockHistory.fecha = Movement.fecha m,
         StockHistory.tipo = Movement.tipo m,
         StockHistory.codigo_almacen = MovementLine.codigo_almacen l,
         StockHistory.codigo_producto = MovementLine.codigo_producto l,
         StockHistory.sku_producto = Product.sku p,
         StockHistory.lote = MovementLine.lote l,
         StockHistory.cantidad = MovementLine.cantidad l,
         StockHistory.usuario = User.nombre u\<rparr>.
        m \<leftarrow> movimientos d,
        l \<leftarrow> movimientos_lineas d, Movement.id_mov m = MovementLine.id_mov l,
        u \<leftarrow> db.usuario d, Movement.id_usuario m = user_id u,
        p \<leftarrow> producto d, Product.codigo p = MovementLine.codigo_producto l,
        MovementLine.codigo_almacen l = cod_almacen]"

definition get_warehouse_stock_history ::
  "env \<Rightarrow> db \<Rightarrow> int \<Rightarrow> User \<Rightarrow> nat \<Rightarrow> nat \<Rightarrow> failure + PaginatedStockHistory" where
  "get_warehouse_stock_history e d cod_almacen current_user lim off =
     (let statement = get_warehouse_stock_history_statement e d cod_almacen
      in
      case fault e 0 of
        Some x \<Rightarrow> Inl (except_SQLAlchemyError x (HTTPException 500 Error_de_conexion))
      | None \<Rightarrow>
     (let history = take lim (drop off statement)
      in
      case fault e 1 of
        Some x \<Rightarrow> Inl (except_SQLAlchemyError x (HTTPException 500 Error_de_conexion))
      | None \<Rightarrow>
          Inr \<lparr>PaginatedStockHistory.data = history,
               PaginatedStockHistory.total = length statement,
               PaginatedStockHistory.limit = lim,
               PaginatedStockHistory.offset = off\<rparr>))"

text \<open>
  \<open>get_warehouse_and_product_stock_history\<close> (lines 539 to 603): the history WH \<Rightarrow> int \<Rightarrow> int.  Call 0 reads the page, call 1 counts the
  rows.  No \<open>where\<close> mentions \<open>current_user\<close>.
\<close>

definition get_warehouse_and_product_stock_history_statement :: "env \<Rightarrow> db \<Rightarrow> int \<Rightarrow> int \<Rightarrow> StockHistory list" where
  "get_warehouse_and_product_stock_history_statement e d cod_producto cod_almacen =
     order_by (fecha_desc_lote e)
       [\<lparr>StockHistory.id_movimiento = Movement.id_mov m,
         StockHistory.fecha = Movement.fecha m,
         StockHistory.tipo = Movement.tipo m,
         StockHistory.codigo_almacen = MovementLine.codigo_almacen l,
         StockHistory.codigo_producto = MovementLine.codigo_producto l,
         StockHistory.sku_producto = Product.sku p,
         StockHistory.lote = MovementLine.lote l,
         StockHistory.cantidad = MovementLine.cantidad l,
         StockHistory.usuario = User.nombre u\<rparr>.
        m \<leftarrow> movimientos d,
        l \<leftarrow> movimientos_lineas d, Movement.id_mov m = MovementLine.id_mov l,
        u \<leftarrow> db.usuario d, Movement.id_usuario m = user_id u,
        p \<leftarrow> producto d, Product.codigo p = MovementLine.codigo_producto l,
        Product.codigo p = cod_producto \<and> MovementLine.codigo_almacen l = cod_almacen]"

definition get_warehouse_and_product_stock_history ::
  "env \<Rightarrow> db \<Rightarrow> int \<Rightarrow> int \<Rightarrow> User \<Rightarrow> nat \<Rightarrow> nat \<Rightarrow> failure + PaginatedStockHistory" where
  "get_warehouse_and_product_stock_history e d cod_producto cod_almacen current_user lim off =
     (let statement = get_warehouse_and_product_stock_history_statement e d cod_producto cod_almacen
      in
      case fault e 0 of
        Some x \<Rightarrow> Inl (except_SQLAlchemyError x (HTTPException 500 Error_de_conexion))
      | None \<Rightarrow>
     (let history = take lim (drop off statement)
      in
      case fault e 1 of
        Some x \<Rightarrow> Inl (except_SQLAlchemyError x (HTTPException 500 Error_de_conexion))
      | None \<Rightarrow>
          Inr \<lparr>PaginatedStockHistory.data = history,
               PaginatedStockHistory.total = length statement,
               PaginatedStockHistory.limit = lim,
               PaginatedStockHistory.offset = off\<rparr>))"

section \<open>\<open>app/dependencies.py\<close> and \<open>app/routers/warehouses.py\<close>: \<open>update_warehouse\<close>\<close>

definition require_admin :: "User \<Rightarrow> failure + User" where
  "require_admin user =
     (if lower (rol user) \<noteq> ''admin'' then Inl (HTTPException 403 Sin_permisos_accion)
      else Inr user)"

record WarehouseUpdate =
  descripcion :: "string option"
  activo :: "bool option"

text \<open>
  \<open>update_warehouse\<close> (lines 167 to 224), behind the \<open>require_admin\<close> dependency.  Call 0
  is \<open>db.get\<close>, call 1 the query for a stock row of the warehouse, call 2 the commit and
  call 3 the refresh; \<open>db.add\<close> only marks the object and calls nothing.  Nothing catches
  an exception of the commit or of the refresh; a failed commit leaves the database as it
  was.  \<open>if stock\<close> holds for every row found, and
  \<open>if warehouse_update.descripcion\<close> fails for \<open>None\<close> and for the empty string.
\<close>

definition update_warehouse ::
  "env \<Rightarrow> db \<Rightarrow> int \<Rightarrow> WarehouseUpdate \<Rightarrow> User \<Rightarrow> (failure + Warehouse) \<times> db" where
  "update_warehouse e d cod warehouse_update user =
     (case require_admin user of
        Inl f \<Rightarrow> (Inl f, d)
      | Inr admin \<Rightarrow>
     (case fault e 0 of
        Some x \<Rightarrow> (Inl (except_SQLAlchemyError x (HTTPException 500 Error_de_conexion)), d)
      | None \<Rightarrow>
     (case first (filter (\<lambda>w. Warehouse.codigo w = cod) (almacen d)) of
        None \<Rightarrow> (Inl (HTTPException 404 Almacen_no_encontrado), d)
      | Some warehouse \<Rightarrow>
     (case (if WarehouseUpdate.activo warehouse_update = Some False
            then (case fault e 1 of
                    Some x \<Rightarrow> Some (except_SQLAlchemyError x (HTTPException 500 Error_de_conexion))
                  | None \<Rightarrow>
                      (case first (filter (\<lambda>s. Stock.codigo_almacen s = cod) (stock d)) of
                         Some stock_row \<Rightarrow> Some (HTTPException 403 (Almacen_no_vacio cod))
                       | None \<Rightarrow> None))
            else None) of
        Some f \<Rightarrow> (Inl f, d)
      | None \<Rightarrow>
     (let warehouse =
            (case WarehouseUpdate.descripcion warehouse_update of
               Some dsc \<Rightarrow> if dsc \<noteq> [] then warehouse\<lparr>Warehouse.descripcion := dsc\<rparr>
                           else warehouse
             | None \<Rightarrow> warehouse);
          warehouse =
            (case WarehouseUpdate.activo warehouse_update of
               Some a \<Rightarrow> warehouse\<lparr>Warehouse.activo := a\<rparr>
             | None \<Rightarrow> warehouse)
      in
      case fault e 2 of
        Some x \<Rightarrow> (Inl (Raised x), d)
      | None \<Rightarrow>
     (let d' = d\<lparr>almacen := map (\<lambda>w. if Warehouse.codigo w = cod then warehouse else w)
                               (almacen d)\<rparr>
      in
      case fault e 3 of
        Some x \<Rightarrow> (Inl (Raised x), d')
      | None \<Rightarrow> (Inr warehouse, d')))))))"

section \<open>Concrete requests\<close>

text \<open>
  A small database, used to run the handlers: an administrator (user 1) and a regular user
  (user 2), one active warehouse holding a stock row of quantity 0, an active and an
  inactive product, and one recorded movement of the administrator.
\<close>

definition ex_admin :: User where
  "ex_admin = \<lparr>user_id = 1, nombre = ''Ana'', email = ''ana@example.org'', passwd = ''x'',
               rol = ''Admin'', User.activo = True\<rparr>"

definition ex_user :: User where
  "ex_user = \<lparr>user_id = 2, nombre = ''Luis'', email = ''luis@example.org'', passwd = ''y'',
              rol = ''usuario'', User.activo = True\<rparr>"

definition ex_db :: db where
  "ex_db =
     \<lparr>db.usuario = [ex_admin, ex_user],
      almacen = [\<lparr>Warehouse.codigo = 1, Warehouse.descripcion = ''Central'',
                  Warehouse.activo = True\<rparr>],
      producto =
        [\<lparr>Product.codigo = 100, Product.sku = ''ABC100'', Product.nombre_corto = ''Tornillo'',
          Product.descripcion = None, Product.id_categoria = 1, Product.activo = True\<rparr>,
         \<lparr>Product.codigo = 200, Product.sku = ''ABC200'', Product.nombre_corto = ''Tuerca'',
          Product.descripcion = None, Product.id_categoria = 1, Product.activo = False\<rparr>],
      stock =
        [\<lparr>Stock.codigo_almacen = 1, Stock.codigo_producto = 100, Stock.lote = ''SIN_LOTE'',
          Stock.fecha_cad = None, Stock.cantidad = 0\<rparr>],
      movimientos =
        [\<lparr>Movement.id_mov = 7, Movement.fecha = 1000, Movement.tipo = ''entrada'',
          Movement.id_usuario = 1\<rparr>],
      movimientos_lineas =
        [\<lparr>MovementLine.id_mov = 7, MovementLine.id_linea = 1, MovementLine.codigo_almacen = 1,
          MovementLine.codigo_producto = 100, MovementLine.lote = ''L1'',
          MovementLine.fecha_cad = None, MovementLine.cantidad = 4\<rparr>]\<rparr>"

text \<open>An environment in which no database call and no delivery fails.\<close>

definition ex_env :: env where
  "ex_env = \<lparr>today = 20000, now = 2000, generated_id = 8, fault = (\<lambda>n. None),
             send_text = (\<lambda>c. None), search_matches = (\<lambda>name s. True),
             collation = (\<lambda>a b. True)\<rparr>"

text \<open>The same environment with database call \<open>k\<close> raising \<open>x\<close>.\<close>

definition ex_env_fault :: "nat \<Rightarrow> exn \<Rightarrow> env" where
  "ex_env_fault k x = ex_env\<lparr>fault := (\<lambda>n. if n = k then Some x else None)\<rparr>"

definition ex_manager :: ConnectionManager where
  "ex_manager = \<lparr>active_connections = [1, 2]\<rparr>"

text \<open>The peer of connection 1 is gone: sending to it raises.\<close>

definition ex_disconnected :: "WebSocket \<Rightarrow> exn option" where
  "ex_disconnected c = (if c = 1 then Some (Exception ''WebSocketDisconnect'') else None)"

definition ex_linea :: "int \<Rightarrow> string option \<Rightarrow> date option \<Rightarrow> MovementLineCreate" where
  "ex_linea pr lt cad =
     \<lparr>MovementLineBase.codigo_almacen = 1, MovementLineBase.codigo_producto = pr,
      MovementLineBase.lote = lt, MovementLineBase.fecha_cad = cad,
      MovementLineBase.cantidad = 5\<rparr>"

definition ex_request :: "string \<Rightarrow> int \<Rightarrow> MovementLineCreate list \<Rightarrow> MovementCreate" where
  "ex_request tp uid lns =
     \<lparr>MovementBase.tipo = tp, MovementBase.id_usuario = uid, MovementCreate.lineas = lns\<rparr>"



section \<open>Properties of \<open>create_movement\<close>\<close>

subsection \<open>Where a failure comes from\<close>

lemma check_fecha_cad_status:
  "check_fecha_cad hoy tp lns = Some f \<Longrightarrow> \<exists>p l dd. f = HTTPException 400 (Fecha_vencida p l dd)"
  by (induction lns) (auto split: option.splits if_splits)

lemma create_movement_try_cases:
  "create_movement_try e d md = Inl f \<Longrightarrow>
     (\<exists>x. f = Raised x) \<or> (\<exists>s. f = HTTPException 400 (Almacenes_no_existen s))
     \<or> (\<exists>s. f = HTTPException 400 (Productos_no_existen s))"
  unfolding create_movement_try_def Let_def
  by (auto split: if_splits option.splits)

lemma create_movement_except_cases:
  "(\<exists>x. f = Raised x) \<or> (\<exists>s. f = HTTPException 400 (Almacenes_no_existen s))
     \<or> (\<exists>s. f = HTTPException 400 (Productos_no_existen s)) \<Longrightarrow>
   (\<exists>m. create_movement_except f = HTTPException 400 (Error_de_integridad m))
   \<or> create_movement_except f = HTTPException 500 Error_base_de_datos
   \<or> (\<exists>s. create_movement_except f = HTTPException 400 (Almacenes_no_existen s))
   \<or> (\<exists>s. create_movement_except f = HTTPException 400 (Productos_no_existen s))"
  unfolding create_movement_except_def
  by (auto split: failure.splits)

lemma create_movement_rejected:
  "create_movement_checks e md u = Some f \<Longrightarrow>
   create_movement e m d md u = \<lparr>result = Inl f, store = d, broadcasts = [], sent = []\<rparr>"
  by (simp add: create_movement_def)

lemma create_movement_rolled_back:
  "create_movement_checks e md u = None \<Longrightarrow> create_movement_try e d md = Inl f \<Longrightarrow>
   create_movement e m d md u =
     \<lparr>result = Inl (create_movement_except f), store = d, broadcasts = [], sent = []\<rparr>"
  by (simp add: create_movement_def)

lemma create_movement_try_store:
  "create_movement_try e d md = Inr d' \<Longrightarrow>
   d' = d\<lparr>movimientos := movimientos d @ [new_movement e md],
          movimientos_lineas := movimientos_lineas d
            @ new_lines (generated_id e) (MovementCreate.lineas md)\<rparr>"
  unfolding create_movement_try_def Let_def
  by (auto split: if_splits option.splits simp: new_movement_def)

lemma create_movement_committed:
  "create_movement_checks e md u = None \<Longrightarrow> create_movement_try e d md = Inr d' \<Longrightarrow>
   store (create_movement e m d md u) = d'"
  by (simp add: create_movement_def Let_def split: option.splits)

lemma create_movement_result_after_commit:
  "create_movement_checks e md u = None \<Longrightarrow> create_movement_try e d md = Inr d' \<Longrightarrow>
   result (create_movement e m d md u) = Inl f \<Longrightarrow>
   f = HTTPException 500 Error_usuario_asociado \<or> f = HTTPException 500 Error_de_conexion
   \<or> (\<exists>x. f = Raised x)"
  by (auto simp add: create_movement_def Let_def split: option.splits if_splits)


lemma ex_admin_is_admin: "is_admin_user ex_admin"
  by (simp add: is_admin_user_def ex_admin_def lower_def lower_char_def)

lemma ex_user_not_admin: "\<not> is_admin_user ex_user"
  by (simp add: is_admin_user_def ex_user_def lower_def lower_char_def)

lemma create_movement_failure_cases:
  assumes "result (create_movement e m d md u) = Inl f"
  shows "create_movement_checks e md u = Some f
       \<or> (create_movement_checks e md u = None
          \<and> ((\<exists>m. f = HTTPException 400 (Error_de_integridad m))
             \<or> f = HTTPException 500 Error_base_de_datos
             \<or> (\<exists>s. f = HTTPException 400 (Almacenes_no_existen s))
             \<or> (\<exists>s. f = HTTPException 400 (Productos_no_existen s))
             \<or> f = HTTPException 500 Error_usuario_asociado
             \<or> f = HTTPException 500 Error_de_conexion
             \<or> (\<exists>x. f = Raised x)))"
proof (cases "create_movement_checks e md u")
  case (Some g)
  with assms show ?thesis by (simp add: create_movement_rejected)
next
  case None
  show ?thesis
  proof (cases "create_movement_try e d md")
    case (Inl g)
    from create_movement_except_cases[OF create_movement_try_cases[OF Inl]] assms None
    show ?thesis by (auto simp: create_movement_rolled_back[OF None Inl])
  next
    case (Inr d')
    from create_movement_result_after_commit[OF None Inr assms] None show ?thesis by auto
  qed
qed

lemma check_fecha_cad_sound:
  "check_fecha_cad hoy tp lns = Some f \<Longrightarrow>
   tp = ''entrada'' \<and>
   (\<exists>l \<in> set lns. \<exists>dd. MovementLineBase.fecha_cad l = Some dd \<and> dd \<le> hoy
      \<and> f = HTTPException 400
            (Fecha_vencida (MovementLineBase.codigo_producto l) (MovementLineBase.lote l) dd))"
  by (induction lns) (auto split: option.splits if_splits)

lemma check_fecha_cad_complete:
  "tp = ''entrada'' \<Longrightarrow> l \<in> set lns \<Longrightarrow> MovementLineBase.fecha_cad l = Some dd \<Longrightarrow> dd \<le> hoy \<Longrightarrow>
   \<exists>f. check_fecha_cad hoy tp lns = Some f"
  by (induction lns) (auto split: option.splits)

text \<open>
  Claim C8.  \<open>create_movement\<close> answers 403 exactly when the requester is not an
  administrator and the submitted \<open>id_usuario\<close> differs from the requester's own id, and
  then with the detail of the authorization check; an administrator is never answered 403,
  whoever the movement is submitted for.
\<close>

theorem create_movement_forbidden_iff:
  "((\<exists>dt. result (create_movement e manager d movement_data current_user) = Inl (HTTPException 403 dt))
     \<longleftrightarrow> (\<not> is_admin_user current_user
          \<and> MovementBase.id_usuario movement_data \<noteq> user_id current_user))
   \<and> (\<not> is_admin_user current_user
        \<and> MovementBase.id_usuario movement_data \<noteq> user_id current_user
      \<longrightarrow> result (create_movement e manager d movement_data current_user)
            = Inl (HTTPException 403 Otro_usuario))
   \<and> (is_admin_user current_user
      \<longrightarrow> (\<forall>dt. result (create_movement e manager d movement_data current_user)
                 \<noteq> Inl (HTTPException 403 dt)))"
proof -
  let ?r = "result (create_movement e manager d movement_data current_user)"
  let ?c = "\<not> is_admin_user current_user
          \<and> MovementBase.id_usuario movement_data \<noteq> user_id current_user"
  have fwd: "?c" if r: "?r = Inl (HTTPException 403 dt)" for dt
    using create_movement_failure_cases[OF r]
    unfolding create_movement_checks_def
    by (auto split: if_splits option.splits dest: check_fecha_cad_status)
  have bwd: "?r = Inl (HTTPException 403 Otro_usuario)" if ?c
    using that by (simp add: create_movement_def create_movement_checks_def)
  from fwd bwd show ?thesis by blast
qed

text \<open>Claim C8 at a regular user submitting for user 1, and at an administrator submitting for user 2.\<close>

theorem create_movement_forbidden_iff_witness:
  "\<not> is_admin_user ex_user
   \<and> MovementBase.id_usuario (ex_request ''salida'' 1 [ex_linea 100 None None]) \<noteq> user_id ex_user
   \<and> result (create_movement ex_env ex_manager ex_db
               (ex_request ''salida'' 1 [ex_linea 100 None None]) ex_user)
       = Inl (HTTPException 403 Otro_usuario)
   \<and> is_admin_user ex_admin
   \<and> (\<forall>dt. result (create_movement ex_env ex_manager ex_db
               (ex_request ''salida'' 2 [ex_linea 100 None None]) ex_admin)
             \<noteq> Inl (HTTPException 403 dt))"
  using create_movement_forbidden_iff[of ex_env ex_manager ex_db
          "ex_request ''salida'' 1 [ex_linea 100 None None]" ex_user]
        create_movement_forbidden_iff[of ex_env ex_manager ex_db
          "ex_request ''salida'' 2 [ex_linea 100 None None]" ex_admin]
        ex_user_not_admin ex_admin_is_admin
  by (simp add: ex_request_def ex_user_def)

text \<open>
  Claim C7.  The checks run in the order of the source, so the cardinality checks are
  reached by the requests that pass the authorization check.  Of those, a request with no
  line is answered 400 by the emptiness check, and a request with 101 lines or more is
  answered 400 (by the bound of 100, unless the expiration check, which runs before it,
  already answered 400).  No request with exactly 100 lines, authorized or not, is
  answered by either cardinality check.
\<close>

theorem create_movement_cardinality:
  "(is_admin_user current_user
      \<or> MovementBase.id_usuario movement_data = user_id current_user \<longrightarrow>
      (length (MovementCreate.lineas movement_data) = 0 \<longrightarrow>
         result (create_movement e manager d movement_data current_user)
           = Inl (HTTPException 400 Sin_lineas))
    \<and> (101 \<le> length (MovementCreate.lineas movement_data) \<longrightarrow>
         result (create_movement e manager d movement_data current_user)
           = Inl (HTTPException 400 Maximo_lineas)
         \<or> (\<exists>p l dd. result (create_movement e manager d movement_data current_user)
               = Inl (HTTPException 400 (Fecha_vencida p l dd)))))
   \<and> (length (MovementCreate.lineas movement_data) = 100 \<longrightarrow>
        result (create_movement e manager d movement_data current_user)
          \<noteq> Inl (HTTPException 400 Sin_lineas)
      \<and> result (create_movement e manager d movement_data current_user)
          \<noteq> Inl (HTTPException 400 Maximo_lineas))"
proof -
  let ?r = "result (create_movement e manager d movement_data current_user)"
  let ?lns = "MovementCreate.lineas movement_data"
  have a: "?r = Inl (HTTPException 400 Sin_lineas)"
    if "is_admin_user current_user \<or> MovementBase.id_usuario movement_data = user_id current_user"
       "length ?lns = 0"
    using that by (auto simp: create_movement_def create_movement_checks_def)
  have b: "?r = Inl (HTTPException 400 Maximo_lineas)
         \<or> (\<exists>p l dd. ?r = Inl (HTTPException 400 (Fecha_vencida p l dd)))"
    if "is_admin_user current_user \<or> MovementBase.id_usuario movement_data = user_id current_user"
       "101 \<le> length ?lns"
    using that
    by (auto simp: create_movement_def create_movement_checks_def split: option.splits
             dest: check_fecha_cad_status)
  have c: "?r \<noteq> Inl (HTTPException 400 Sin_lineas) \<and> ?r \<noteq> Inl (HTTPException 400 Maximo_lineas)"
    if len: "length ?lns = 100"
  proof -
    have "f \<noteq> HTTPException 400 Sin_lineas \<and> f \<noteq> HTTPException 400 Maximo_lineas"
      if r: "?r = Inl f" for f
      using create_movement_failure_cases[OF r] len
      unfolding create_movement_checks_def
      by (auto split: if_splits option.splits dest: check_fecha_cad_status)
    then show ?thesis by blast
  qed
  from a b c show ?thesis by blast
qed

text \<open>Claim C7 at requests of an administrator with 0, 101 and 100 lines.\<close>

theorem create_movement_cardinality_witness:
  "(is_admin_user ex_admin
    \<and> length (MovementCreate.lineas (ex_request ''salida'' 2 [])) = 0
    \<and> result (create_movement ex_env ex_manager ex_db (ex_request ''salida'' 2 []) ex_admin)
        = Inl (HTTPException 400 Sin_lineas))
   \<and> (101 \<le> length (MovementCreate.lineas
                 (ex_request ''salida'' 2 (replicate 101 (ex_linea 100 None None))))
      \<and> result (create_movement ex_env ex_manager ex_db
                  (ex_request ''salida'' 2 (replicate 101 (ex_linea 100 None None))) ex_admin)
          = Inl (HTTPException 400 Maximo_lineas))
   \<and> (length (MovementCreate.lineas
                 (ex_request ''salida'' 2 (replicate 100 (ex_linea 100 None None)))) = 100
      \<and> result (create_movement ex_env ex_manager ex_db
                  (ex_request ''salida'' 2 (replicate 100 (ex_linea 100 None None))) ex_admin)
          \<noteq> Inl (HTTPException 400 Maximo_lineas))"
proof -
  have chk: "check_fecha_cad hoy ''salida'' lns = None" for hoy lns
    by (induction lns) (auto split: option.splits)
  have nofv: "result (create_movement ex_env ex_manager ex_db
                  (ex_request ''salida'' 2 lns) ex_admin)
               \<noteq> Inl (HTTPException 400 (Fecha_vencida p l dd))" for lns p l dd
    by (auto simp: create_movement_def create_movement_checks_def ex_request_def chk
                   ex_admin_is_admin create_movement_except_def create_movement_try_def Let_def
             split: option.splits sum.splits failure.splits if_splits)
  show ?thesis
    using create_movement_cardinality[of ex_admin "ex_request ''salida'' 2 []" ex_env ex_manager ex_db]
          create_movement_cardinality[of ex_admin
            "ex_request ''salida'' 2 (replicate 101 (ex_linea 100 None None))" ex_env ex_manager ex_db]
          create_movement_cardinality[of ex_admin
            "ex_request ''salida'' 2 (replicate 100 (ex_linea 100 None None))" ex_env ex_manager ex_db]
          ex_admin_is_admin nofv
    by (simp add: ex_request_def)
qed

subsection \<open>The expiration check\<close>

text \<open>
  Claim C6.  In an \<open>entrada\<close> that passes the authorization check (the checks run in the
  order of the source), a line whose expiration date is set and is today or earlier makes
  \<open>create_movement\<close> answer 400 with the product, lot and date of such a line.  Conversely
  that answer is only ever given to an \<open>entrada\<close>, for a submitted line, and for a date
  that is not after today: a line dated after today and a \<open>salida\<close> are never refused by
  this check.
\<close>

theorem create_movement_expiration_check:
  "(MovementBase.tipo movement_data = ''entrada''
      \<and> (\<exists>l \<in> set (MovementCreate.lineas movement_data).
            \<exists>dd. MovementLineBase.fecha_cad l = Some dd \<and> dd \<le> today e)
      \<and> (is_admin_user current_user
           \<or> MovementBase.id_usuario movement_data = user_id current_user)
     \<longrightarrow> (\<exists>l \<in> set (MovementCreate.lineas movement_data).
            \<exists>dd. MovementLineBase.fecha_cad l = Some dd \<and> dd \<le> today e
              \<and> result (create_movement e manager d movement_data current_user)
                  = Inl (HTTPException 400
                      (Fecha_vencida (MovementLineBase.codigo_producto l)
                         (MovementLineBase.lote l) dd))))
   \<and> (\<forall>p lt dd.
        result (create_movement e manager d movement_data current_user)
          = Inl (HTTPException 400 (Fecha_vencida p lt dd))
        \<longrightarrow> MovementBase.tipo movement_data = ''entrada'' \<and> dd \<le> today e
            \<and> (\<exists>l \<in> set (MovementCreate.lineas movement_data).
                  MovementLineBase.codigo_producto l = p \<and> MovementLineBase.lote l = lt
                  \<and> MovementLineBase.fecha_cad l = Some dd))"
proof -
  let ?r = "result (create_movement e manager d movement_data current_user)"
  let ?lns = "MovementCreate.lineas movement_data"
  let ?tp = "MovementBase.tipo movement_data"
  have a: "\<exists>l \<in> set ?lns. \<exists>dd. MovementLineBase.fecha_cad l = Some dd \<and> dd \<le> today e
              \<and> ?r = Inl (HTTPException 400
                      (Fecha_vencida (MovementLineBase.codigo_producto l)
                         (MovementLineBase.lote l) dd))"
    if tp: "?tp = ''entrada''"
    and ex: "\<exists>l \<in> set ?lns. \<exists>dd. MovementLineBase.fecha_cad l = Some dd \<and> dd \<le> today e"
    and au: "is_admin_user current_user \<or> MovementBase.id_usuario movement_data = user_id current_user"
  proof -
    from ex obtain l dd where l: "l \<in> set ?lns" "MovementLineBase.fecha_cad l = Some dd" "dd \<le> today e"
      by blast
    from check_fecha_cad_complete[OF tp l] obtain f
      where f: "check_fecha_cad (today e) ?tp ?lns = Some f" by blast
    from l have ne: "?lns \<noteq> []" by auto
    from f ne au have "create_movement_checks e movement_data current_user = Some f"
      by (auto simp: create_movement_checks_def)
    then have "?r = Inl f" by (simp add: create_movement_rejected)
    with check_fecha_cad_sound[OF f] show ?thesis by auto
  qed
  have b: "?tp = ''entrada'' \<and> dd \<le> today e
            \<and> (\<exists>l \<in> set ?lns.
                  MovementLineBase.codigo_producto l = p \<and> MovementLineBase.lote l = lt
                  \<and> MovementLineBase.fecha_cad l = Some dd)"
    if r: "?r = Inl (HTTPException 400 (Fecha_vencida p lt dd))" for p lt dd
  proof -
    from create_movement_failure_cases[OF r]
    have "create_movement_checks e movement_data current_user
            = Some (HTTPException 400 (Fecha_vencida p lt dd))" by auto
    then have "check_fecha_cad (today e) ?tp ?lns = Some (HTTPException 400 (Fecha_vencida p lt dd))"
      by (auto simp: create_movement_checks_def split: if_splits option.splits)
    from check_fecha_cad_sound[OF this] show ?thesis by auto
  qed
  from a b show ?thesis by blast
qed

text \<open>Claim C6 at an \<open>entrada\<close> of two lines, the second one expiring today.\<close>

theorem create_movement_expiration_check_witness:
  "MovementBase.tipo (ex_request ''entrada'' 2 [ex_linea 100 None (Some 20001),
        ex_linea 100 (Some ''L7'') (Some 20000)]) = ''entrada''
   \<and> ex_linea 100 (Some ''L7'') (Some 20000)
       \<in> set (MovementCreate.lineas (ex_request ''entrada'' 2 [ex_linea 100 None (Some 20001),
            ex_linea 100 (Some ''L7'') (Some 20000)]))
   \<and> MovementLineBase.fecha_cad (ex_linea 100 (Some ''L7'') (Some 20000)) = Some 20000
   \<and> 20000 \<le> today ex_env
   \<and> MovementBase.id_usuario (ex_request ''entrada'' 2 [ex_linea 100 None (Some 20001),
        ex_linea 100 (Some ''L7'') (Some 20000)]) = user_id ex_user
   \<and> result (create_movement ex_env ex_manager ex_db
        (ex_request ''entrada'' 2 [ex_linea 100 None (Some 20001),
           ex_linea 100 (Some ''L7'') (Some 20000)]) ex_user)
       = Inl (HTTPException 400 (Fecha_vencida 100 (Some ''L7'') 20000))"
  using create_movement_expiration_check[where e = ex_env and manager = ex_manager and d = ex_db
          and current_user = ex_user
          and movement_data = "ex_request ''entrada'' 2 [ex_linea 100 None (Some 20001),
                ex_linea 100 (Some ''L7'') (Some 20000)]"]
  by (auto simp: ex_request_def ex_linea_def ex_env_def ex_user_def)

subsection \<open>The lines of a committed movement\<close>

lemma create_movement_checks_None:
  "create_movement_checks e md u = None \<Longrightarrow>
   MovementCreate.lineas md \<noteq> [] \<and> length (MovementCreate.lineas md) \<le> 100"
  by (auto simp: create_movement_checks_def split: if_splits option.splits)

lemma create_movement_success:
  assumes "result (create_movement e m d md u) = Inr r"
  shows "create_movement_checks e md u = None"
    and "create_movement_try e d md = Inr (store (create_movement e m d md u))"
    and "fault e 4 = None" and "fault e 5 = None"
    and "MovementResponse.id_mov r = generated_id e"
    and "MovementBase.tipo r = MovementBase.tipo md"
    and "broadcasts (create_movement e m d md u)
           = [Nuevo_movimiento_registrado (generated_id e) (MovementBase.tipo md)]"
    and "sent (create_movement e m d md u)
           = fst (broadcast (send_text e) m
                    (Nuevo_movimiento_registrado (generated_id e) (MovementBase.tipo md)))"
  using assms
  by (auto simp: create_movement_def Let_def new_movement_def
           split: option.splits sum.splits if_splits)

lemma length_new_lines: "length (new_lines k lns) = length lns"
  by (simp add: new_lines_def)

lemma id_linea_new_lines:
  "map MovementLine.id_linea (new_lines k lns) = map int [1..<Suc (length lns)]"
proof -
  have "map MovementLine.id_linea (new_lines k lns) = map (\<lambda>x. int (fst x)) (enumerate 1 lns)"
    unfolding new_lines_def by (simp add: split_def comp_def)
  also have "\<dots> = map int (map fst (enumerate 1 lns))"
    by (simp only: map_map comp_def)
  also have "\<dots> = map int [1..<1 + length lns]"
    by (simp only: map_fst_enumerate)
  also have "\<dots> = map int [1..<Suc (length lns)]"
    by (simp only: plus_1_eq_Suc)
  finally show ?thesis .
qed

lemma nth_new_lines:
  "i < length lns \<Longrightarrow>
   new_lines k lns ! i =
     \<lparr>MovementLine.id_mov = k,
      MovementLine.id_linea = int i + 1,
      MovementLine.codigo_almacen = MovementLineBase.codigo_almacen (lns ! i),
      MovementLine.codigo_producto = MovementLineBase.codigo_producto (lns ! i),
      MovementLine.lote = or_str (MovementLineBase.lote (lns ! i)) ''SIN_LOTE'',
      MovementLine.fecha_cad = MovementLineBase.fecha_cad (lns ! i),
      MovementLine.cantidad = MovementLineBase.cantidad (lns ! i)\<rparr>"
  by (simp add: new_lines_def nth_enumerate_eq)

text \<open>
  Claim C5.  When \<open>create_movement\<close> succeeds, the request has between 1 and 100 lines and
  the rows appended to \<open>movimientos_lineas\<close> are one per submitted line, in submission
  order: row \<open>i\<close> (counted from 0) has \<open>id_linea = i + 1\<close>, the identifier of the new
  movement, the submitted warehouse, product, date and quantity, and the submitted lot,
  or \<open>SIN_LOTE\<close> when the lot is null or empty.
\<close>

theorem create_movement_line_sequence:
  "result (create_movement e manager d movement_data current_user) = Inr r \<Longrightarrow>
   1 \<le> length (MovementCreate.lineas movement_data)
   \<and> length (MovementCreate.lineas movement_data) \<le> 100
   \<and> (\<exists>new.
        movimientos_lineas (store (create_movement e manager d movement_data current_user))
          = movimientos_lineas d @ new
        \<and> length new = length (MovementCreate.lineas movement_data)
        \<and> map MovementLine.id_linea new
            = map int [1..<Suc (length (MovementCreate.lineas movement_data))]
        \<and> (\<forall>i < length (MovementCreate.lineas movement_data).
              MovementLine.id_linea (new ! i) = int i + 1
            \<and> MovementLine.id_mov (new ! i) = MovementResponse.id_mov r
            \<and> MovementLine.lote (new ! i)
                = (case MovementLineBase.lote (MovementCreate.lineas movement_data ! i) of
                     None \<Rightarrow> ''SIN_LOTE''
                   | Some s \<Rightarrow> if s = '''' then ''SIN_LOTE'' else s)
            \<and> MovementLine.codigo_almacen (new ! i)
                = MovementLineBase.codigo_almacen (MovementCreate.lineas movement_data ! i)
            \<and> MovementLine.codigo_producto (new ! i)
                = MovementLineBase.codigo_producto (MovementCreate.lineas movement_data ! i)
            \<and> MovementLine.fecha_cad (new ! i)
                = MovementLineBase.fecha_cad (MovementCreate.lineas movement_data ! i)
            \<and> MovementLine.cantidad (new ! i)
                = MovementLineBase.cantidad (MovementCreate.lineas movement_data ! i)))"
proof -
  assume r: "result (create_movement e manager d movement_data current_user) = Inr r"
  let ?lns = "MovementCreate.lineas movement_data"
  let ?new = "new_lines (generated_id e) ?lns"
  from create_movement_checks_None[OF create_movement_success(1)[OF r]]
  have len: "1 \<le> length ?lns \<and> length ?lns \<le> 100"
    by (cases ?lns) auto
  from create_movement_try_store[OF create_movement_success(2)[OF r]]
  have st: "movimientos_lineas (store (create_movement e manager d movement_data current_user))
              = movimientos_lineas d @ ?new"
    by simp
  have each: "\<forall>i < length ?lns.
              MovementLine.id_linea (?new ! i) = int i + 1
            \<and> MovementLine.id_mov (?new ! i) = MovementResponse.id_mov r
            \<and> MovementLine.lote (?new ! i)
                = (case MovementLineBase.lote (?lns ! i) of
                     None \<Rightarrow> ''SIN_LOTE''
                   | Some s \<Rightarrow> if s = '''' then ''SIN_LOTE'' else s)
            \<and> MovementLine.codigo_almacen (?new ! i) = MovementLineBase.codigo_almacen (?lns ! i)
            \<and> MovementLine.codigo_producto (?new ! i) = MovementLineBase.codigo_producto (?lns ! i)
            \<and> MovementLine.fecha_cad (?new ! i) = MovementLineBase.fecha_cad (?lns ! i)
            \<and> MovementLine.cantidad (?new ! i) = MovementLineBase.cantidad (?lns ! i)"
    by (simp add: nth_new_lines create_movement_success(5)[OF r] or_str_def)
  from len st each show ?thesis
    using length_new_lines id_linea_new_lines by blast
qed

text \<open>Claim C5 at a request of three lines whose lots are null, empty and \<open>L9\<close>.\<close>

theorem create_movement_line_sequence_witness:
  "result (create_movement ex_env ex_manager ex_db
      (ex_request ''salida'' 2 [ex_linea 100 None None, ex_linea 100 (Some '''') None,
         ex_linea 100 (Some ''L9'') None]) ex_user)
     = Inr (projr (result (create_movement ex_env ex_manager ex_db
      (ex_request ''salida'' 2 [ex_linea 100 None None, ex_linea 100 (Some '''') None,
         ex_linea 100 (Some ''L9'') None]) ex_user)))
   \<and> (\<exists>new.
        movimientos_lineas (store (create_movement ex_env ex_manager ex_db
          (ex_request ''salida'' 2 [ex_linea 100 None None, ex_linea 100 (Some '''') None,
             ex_linea 100 (Some ''L9'') None]) ex_user))
          = movimientos_lineas ex_db @ new
        \<and> map MovementLine.id_linea new = [1, 2, 3]
        \<and> MovementLine.lote (new ! 0) = ''SIN_LOTE''
        \<and> MovementLine.lote (new ! 1) = ''SIN_LOTE''
        \<and> MovementLine.lote (new ! 2) = ''L9'')"
proof -
  define md where "md = ex_request ''salida'' 2 [ex_linea 100 None None,
         ex_linea 100 (Some '''') None, ex_linea 100 (Some ''L9'') None]"
  define out where "out = create_movement ex_env ex_manager ex_db md ex_user"
  have "\<not> isl (result out)"
    unfolding out_def md_def by code_simp
  then have h: "result out = Inr (projr (result out))" by simp
  have lns: "MovementCreate.lineas md = [ex_linea 100 None None,
         ex_linea 100 (Some '''') None, ex_linea 100 (Some ''L9'') None]"
    by (simp add: md_def ex_request_def)
  have up: "[1..<Suc 3] = [1, 2, 3]" by (simp add: upt_rec)
  from create_movement_line_sequence[OF h[unfolded out_def]]
  obtain new where
    n1: "movimientos_lineas (store out) = movimientos_lineas ex_db @ new"
    and n2: "map MovementLine.id_linea new = map int [1..<Suc (length (MovementCreate.lineas md))]"
    and n3: "\<forall>i < length (MovementCreate.lineas md).
          MovementLine.id_linea (new ! i) = int i + 1
            \<and> MovementLine.id_mov (new ! i) = MovementResponse.id_mov (projr (result out))
            \<and> MovementLine.lote (new ! i)
                = (case MovementLineBase.lote (MovementCreate.lineas md ! i) of
                     None \<Rightarrow> ''SIN_LOTE''
                   | Some s \<Rightarrow> if s = '''' then ''SIN_LOTE'' else s)
            \<and> MovementLine.codigo_almacen (new ! i)
                = MovementLineBase.codigo_almacen (MovementCreate.lineas md ! i)
            \<and> MovementLine.codigo_producto (new ! i)
                = MovementLineBase.codigo_producto (MovementCreate.lineas md ! i)
            \<and> MovementLine.fecha_cad (new ! i)
                = MovementLineBase.fecha_cad (MovementCreate.lineas md ! i)
            \<and> MovementLine.cantidad (new ! i)
                = MovementLineBase.cantidad (MovementCreate.lineas md ! i)"
    unfolding out_def[symmetric] by (elim conjE exE)
  from n2 have ids: "map MovementLine.id_linea new = [1, 2, 3]"
    unfolding lns by (simp add: up)
  from n3[rule_format, of 0] have l0: "MovementLine.lote (new ! 0) = ''SIN_LOTE''"
    unfolding lns by (simp add: ex_linea_def)
  from n3[rule_format, of 1] have l1: "MovementLine.lote (new ! 1) = ''SIN_LOTE''"
    unfolding lns by (simp add: ex_linea_def)
  from n3[rule_format, of 2] have l2: "MovementLine.lote (new ! 2) = ''L9''"
    unfolding lns by (simp add: ex_linea_def)
  have "\<exists>new. movimientos_lineas (store out) = movimientos_lineas ex_db @ new
        \<and> map MovementLine.id_linea new = [1, 2, 3]
        \<and> MovementLine.lote (new ! 0) = ''SIN_LOTE''
        \<and> MovementLine.lote (new ! 1) = ''SIN_LOTE''
        \<and> MovementLine.lote (new ! 2) = ''L9''"
    using n1 ids l0 l1 l2 by (intro exI[of _ new] conjI)
  with h show ?thesis unfolding out_def md_def by (rule conjI)
qed

subsection \<open>What a failed request leaves in the database\<close>

text \<open>
  Claim C1, amended.  A request that fails in the checks or inside the transaction (any
  failure up to and including the commit) leaves the database as it was; so does every
  failed request when the two reads that follow the commit do not fail.  A request that
  fails after the checks have passed and the transaction has committed fails in one of
  those two reads, is answered 500 or with the exception of the read, and leaves the whole
  movement in the database: the header and every line.  No failed request leaves
  anything else.
\<close>

theorem create_movement_failure_store:
  "result (create_movement e manager d movement_data current_user) = Inl f \<Longrightarrow>
   (fault e 4 = None \<and> fault e 5 = None
      \<longrightarrow> store (create_movement e manager d movement_data current_user) = d)
   \<and> (store (create_movement e manager d movement_data current_user) = d
      \<or> store (create_movement e manager d movement_data current_user)
          = d\<lparr>movimientos := movimientos d @ [new_movement e movement_data],
               movimientos_lineas := movimientos_lineas d
                 @ new_lines (generated_id e) (MovementCreate.lineas movement_data)\<rparr>)
   \<and> (create_movement_checks e movement_data current_user \<noteq> None
        \<or> isl (create_movement_try e d movement_data)
      \<longrightarrow> store (create_movement e manager d movement_data current_user) = d)
   \<and> (create_movement_checks e movement_data current_user = None
        \<and> \<not> isl (create_movement_try e d movement_data)
      \<longrightarrow> (fault e 4 \<noteq> None \<or> fault e 5 \<noteq> None)
          \<and> (f = HTTPException 500 Error_usuario_asociado
               \<or> f = HTTPException 500 Error_de_conexion \<or> (\<exists>x. f = Raised x))
          \<and> store (create_movement e manager d movement_data current_user)
              = d\<lparr>movimientos := movimientos d @ [new_movement e movement_data],
                   movimientos_lineas := movimientos_lineas d
                     @ new_lines (generated_id e) (MovementCreate.lineas movement_data)\<rparr>)"
proof -
  assume r: "result (create_movement e manager d movement_data current_user) = Inl f"
  let ?out = "create_movement e manager d movement_data current_user"
  show ?thesis
  proof (cases "create_movement_checks e movement_data current_user")
    case (Some g)
    then show ?thesis by (simp add: create_movement_rejected)
  next
    case None
    show ?thesis
    proof (cases "create_movement_try e d movement_data")
      case (Inl g)
      then show ?thesis by (simp add: create_movement_rolled_back[OF None Inl])
    next
      case (Inr d')
      have st: "store ?out = d'" by (rule create_movement_committed[OF None Inr])
      have fl: "fault e 4 \<noteq> None \<or> fault e 5 \<noteq> None"
        using r None Inr by (auto simp: create_movement_def Let_def split: option.splits)
      note fs = create_movement_result_after_commit[OF None Inr r]
      from st fl fs create_movement_try_store[OF Inr] None Inr show ?thesis by auto
    qed
  qed
qed

text \<open>
  Claim C1, amended, at a request naming the inactive product 200, refused inside the
  transaction, and at a request whose read of the lines raises after the commit.
\<close>

theorem create_movement_failure_store_witness:
  "(result (create_movement ex_env ex_manager ex_db
      (ex_request ''salida'' 2 [ex_linea 100 None None, ex_linea 200 None None]) ex_user)
     = Inl (HTTPException 400 (Productos_no_existen {200}))
   \<and> isl (create_movement_try ex_env ex_db
        (ex_request ''salida'' 2 [ex_linea 100 None None, ex_linea 200 None None]))
   \<and> fault ex_env 4 = None \<and> fault ex_env 5 = None
   \<and> store (create_movement ex_env ex_manager ex_db
      (ex_request ''salida'' 2 [ex_linea 100 None None, ex_linea 200 None None]) ex_user) = ex_db)
   \<and> (result (create_movement (ex_env_fault 5 (Exception ''timeout'')) ex_manager ex_db
      (ex_request ''salida'' 2 [ex_linea 100 None None]) ex_user)
     = Inl (Raised (Exception ''timeout''))
   \<and> create_movement_checks (ex_env_fault 5 (Exception ''timeout''))
        (ex_request ''salida'' 2 [ex_linea 100 None None]) ex_user = None
   \<and> \<not> isl (create_movement_try (ex_env_fault 5 (Exception ''timeout'')) ex_db
        (ex_request ''salida'' 2 [ex_linea 100 None None]))
   \<and> store (create_movement (ex_env_fault 5 (Exception ''timeout'')) ex_manager ex_db
      (ex_request ''salida'' 2 [ex_linea 100 None None]) ex_user)
     = ex_db\<lparr>movimientos := movimientos ex_db
                @ [new_movement (ex_env_fault 5 (Exception ''timeout''))
                     (ex_request ''salida'' 2 [ex_linea 100 None None])],
              movimientos_lineas := movimientos_lineas ex_db
                @ new_lines (generated_id (ex_env_fault 5 (Exception ''timeout'')))
                    (MovementCreate.lineas (ex_request ''salida'' 2 [ex_linea 100 None None]))\<rparr>)"
proof -
  define md where "md = ex_request ''salida'' 2 [ex_linea 100 None None, ex_linea 200 None None]"
  define md' where "md' = ex_request ''salida'' 2 [ex_linea 100 None None]"
  define e' where "e' = ex_env_fault 5 (Exception ''timeout'')"
  have h: "result (create_movement ex_env ex_manager ex_db md ex_user)
     = Inl (HTTPException 400 (Productos_no_existen {200}))"
    unfolding md_def by code_simp
  have t: "isl (create_movement_try ex_env ex_db md)" unfolding md_def by code_simp
  have f: "fault ex_env 4 = None" "fault ex_env 5 = None" by (simp_all add: ex_env_def)
  have h': "result (create_movement e' ex_manager ex_db md' ex_user)
     = Inl (Raised (Exception ''timeout''))"
    unfolding md'_def e'_def by code_simp
  have c': "create_movement_checks e' md' ex_user = None"
    unfolding md'_def e'_def by code_simp
  have t': "\<not> isl (create_movement_try e' ex_db md')"
    unfolding md'_def e'_def by code_simp
  from create_movement_failure_store[OF h] t
  have 1: "store (create_movement ex_env ex_manager ex_db md ex_user) = ex_db" by blast
  from create_movement_failure_store[OF h'] c' t'
  have 2: "store (create_movement e' ex_manager ex_db md' ex_user)
     = ex_db\<lparr>movimientos := movimientos ex_db @ [new_movement e' md'],
              movimientos_lineas := movimientos_lineas ex_db
                @ new_lines (generated_id e') (MovementCreate.lineas md')\<rparr>" by blast
  from h t f 1 h' c' t' 2 show ?thesis
    unfolding md_def md'_def e'_def by (intro conjI)
qed

text \<open>
  Claim C1 as stated fails when the read of the user's name raises after the commit: the
  request is answered 500 and the movement with its line is in the database.
\<close>

theorem create_movement_failure_after_commit_counterexample:
  "result (create_movement (ex_env_fault 4 (OperationalError ''connection lost'')) ex_manager ex_db
      (ex_request ''salida'' 2 [ex_linea 100 None None]) ex_user)
     = Inl (HTTPException 500 Error_usuario_asociado)
   \<and> store (create_movement (ex_env_fault 4 (OperationalError ''connection lost'')) ex_manager ex_db
      (ex_request ''salida'' 2 [ex_linea 100 None None]) ex_user) \<noteq> ex_db
   \<and> movimientos (store (create_movement (ex_env_fault 4 (OperationalError ''connection lost''))
        ex_manager ex_db (ex_request ''salida'' 2 [ex_linea 100 None None]) ex_user))
     = movimientos ex_db
       @ [\<lparr>Movement.id_mov = 8, Movement.fecha = 2000, Movement.tipo = ''salida'',
           Movement.id_usuario = 2\<rparr>]
   \<and> movimientos_lineas (store (create_movement (ex_env_fault 4 (OperationalError ''connection lost''))
        ex_manager ex_db (ex_request ''salida'' 2 [ex_linea 100 None None]) ex_user))
     = movimientos_lineas ex_db
       @ [\<lparr>MovementLine.id_mov = 8, MovementLine.id_linea = 1, MovementLine.codigo_almacen = 1,
           MovementLine.codigo_producto = 100, MovementLine.lote = ''SIN_LOTE'',
           MovementLine.fecha_cad = None, MovementLine.cantidad = 5\<rparr>]"
  by code_simp

subsection \<open>The status of a failure of the database\<close>

text \<open>
  Claim C3 at a connectivity failure of the flush: \<open>except SQLAlchemyError\<close> (line 328)
  catches the \<open>OperationalError\<close> and answers 400 "Error de integridad", the answer an
  \<open>IntegrityError\<close> with the same message gets; the 500 of line 341 is not reached.
\<close>

theorem create_movement_connectivity_failure_is_400:
  "result (create_movement (ex_env_fault 0 (OperationalError ''connection refused'')) ex_manager ex_db
      (ex_request ''salida'' 2 [ex_linea 100 None None]) ex_user)
     = Inl (HTTPException 400 (Error_de_integridad ''connection refused''))
   \<and> result (create_movement (ex_env_fault 0 (IntegrityError ''connection refused'')) ex_manager ex_db
      (ex_request ''salida'' 2 [ex_linea 100 None None]) ex_user)
     = Inl (HTTPException 400 (Error_de_integridad ''connection refused''))
   \<and> store (create_movement (ex_env_fault 0 (OperationalError ''connection refused'')) ex_manager ex_db
      (ex_request ''salida'' 2 [ex_linea 100 None None]) ex_user) = ex_db"
  by code_simp

subsection \<open>The notification\<close>

lemma create_movement_failure_silent:
  "result (create_movement e m d md u) = Inl f \<Longrightarrow>
   broadcasts (create_movement e m d md u) = [] \<and> sent (create_movement e m d md u) = []"
  by (auto simp: create_movement_def Let_def split: option.splits sum.splits)

lemma create_movement_try_env:
  "create_movement_try (e\<lparr>send_text := s\<rparr>) d md = create_movement_try e d md"
  by (simp add: create_movement_try_def new_movement_def Let_def split: option.splits)

lemma create_movement_checks_env:
  "create_movement_checks (e\<lparr>send_text := s\<rparr>) md u = create_movement_checks e md u"
  by (simp add: create_movement_checks_def)

lemma create_movement_ignores_delivery:
  "result (create_movement (e\<lparr>send_text := s\<rparr>) m' d md u) = result (create_movement e m d md u)
   \<and> store (create_movement (e\<lparr>send_text := s\<rparr>) m' d md u) = store (create_movement e m d md u)
   \<and> broadcasts (create_movement (e\<lparr>send_text := s\<rparr>) m' d md u)
       = broadcasts (create_movement e m d md u)"
  by (simp add: create_movement_def create_movement_try_env create_movement_checks_env
        new_movement_def Let_def split: option.splits sum.splits)

text \<open>
  Claim C9, amended.  \<open>manager.broadcast\<close> is called, once and with the new movement's
  identifier and type, exactly when the request succeeds, that is when the checks pass,
  the transaction commits and the two reads after the commit do not fail; a failed
  request broadcasts nothing.  What the broadcast does has no effect on the request:
  whatever the connections and whichever deliveries raise, the response and the database
  are the same, and a successful request leaves the movement and its lines committed.
\<close>

theorem create_movement_notification:
  "broadcasts (create_movement e manager d movement_data current_user)
     = (case result (create_movement e manager d movement_data current_user) of
          Inr r \<Rightarrow> [Nuevo_movimiento_registrado (MovementResponse.id_mov r) (MovementBase.tipo r)]
        | Inl f \<Rightarrow> [])
   \<and> (\<forall>r. result (create_movement e manager d movement_data current_user) = Inr r \<longrightarrow>
          fault e 4 = None \<and> fault e 5 = None
        \<and> create_movement_try e d movement_data
            = Inr (store (create_movement e manager d movement_data current_user))
        \<and> store (create_movement e manager d movement_data current_user)
            = d\<lparr>movimientos := movimientos d @ [new_movement e movement_data],
                 movimientos_lineas := movimientos_lineas d
                   @ new_lines (generated_id e) (MovementCreate.lineas movement_data)\<rparr>
        \<and> sent (create_movement e manager d movement_data current_user)
            = fst (broadcast (send_text e) manager
                     (Nuevo_movimiento_registrado (MovementResponse.id_mov r) (MovementBase.tipo r))))
   \<and> ((\<exists>r. result (create_movement e manager d movement_data current_user) = Inr r)
        \<longleftrightarrow> create_movement_checks e movement_data current_user = None
            \<and> \<not> isl (create_movement_try e d movement_data)
            \<and> fault e 4 = None \<and> fault e 5 = None)
   \<and> result (create_movement (e\<lparr>send_text := s\<rparr>) manager' d movement_data current_user)
       = result (create_movement e manager d movement_data current_user)
   \<and> store (create_movement (e\<lparr>send_text := s\<rparr>) manager' d movement_data current_user)
       = store (create_movement e manager d movement_data current_user)"
proof -
  let ?out = "create_movement e manager d movement_data current_user"
  have a: "broadcasts ?out
     = (case result ?out of
          Inr r \<Rightarrow> [Nuevo_movimiento_registrado (MovementResponse.id_mov r) (MovementBase.tipo r)]
        | Inl f \<Rightarrow> [])"
  proof (cases "result ?out")
    case (Inl f)
    with create_movement_failure_silent[OF Inl] show ?thesis by simp
  next
    case (Inr r)
    with create_movement_success(5,6,7)[OF Inr] show ?thesis by simp
  qed
  have b: "fault e 4 = None \<and> fault e 5 = None
        \<and> create_movement_try e d movement_data = Inr (store ?out)
        \<and> store ?out
            = d\<lparr>movimientos := movimientos d @ [new_movement e movement_data],
                 movimientos_lineas := movimientos_lineas d
                   @ new_lines (generated_id e) (MovementCreate.lineas movement_data)\<rparr>
        \<and> sent ?out
            = fst (broadcast (send_text e) manager
                     (Nuevo_movimiento_registrado (MovementResponse.id_mov r) (MovementBase.tipo r)))"
    if r: "result ?out = Inr r" for r
    using create_movement_success[OF r] create_movement_try_store[OF create_movement_success(2)[OF r]]
    by simp
  have c: "(\<exists>r. result ?out = Inr r)
        \<longleftrightarrow> create_movement_checks e movement_data current_user = None
            \<and> \<not> isl (create_movement_try e d movement_data)
            \<and> fault e 4 = None \<and> fault e 5 = None"
    by (auto simp: create_movement_def Let_def split: option.splits sum.splits)
  from a b c create_movement_ignores_delivery[where e = e and s = s and m' = manager' and d = d
      and md = movement_data and u = current_user and m = manager]
  show ?thesis by blast
qed

text \<open>Claim C9, amended, at a successful request whose deliveries all raise.\<close>

theorem create_movement_notification_witness:
  "result (create_movement (ex_env\<lparr>send_text := ex_disconnected\<rparr>)
      ex_manager ex_db (ex_request ''salida'' 2 [ex_linea 100 None None]) ex_user)
     = Inr (projr (result (create_movement ex_env ex_manager ex_db
               (ex_request ''salida'' 2 [ex_linea 100 None None]) ex_user)))
   \<and> movimientos (store (create_movement
        (ex_env\<lparr>send_text := ex_disconnected\<rparr>)
        ex_manager ex_db (ex_request ''salida'' 2 [ex_linea 100 None None]) ex_user))
      = movimientos ex_db @ [new_movement ex_env (ex_request ''salida'' 2 [ex_linea 100 None None])]
   \<and> broadcasts (create_movement ex_env ex_manager ex_db
         (ex_request ''salida'' 2 [ex_linea 100 None None]) ex_user)
      = [Nuevo_movimiento_registrado 8 ''salida'']"
proof -
  define md where "md = ex_request ''salida'' 2 [ex_linea 100 None None]"
  define out where "out = create_movement ex_env ex_manager ex_db md ex_user"
  have "\<not> isl (result out)" unfolding out_def md_def by code_simp
  then have h: "result out = Inr (projr (result out))" by simp
  have idt: "MovementResponse.id_mov (projr (result out)) = 8"
     "MovementBase.tipo (projr (result out)) = ''salida''"
    unfolding out_def md_def by code_simp+
  note t = create_movement_notification[where e = ex_env and manager = ex_manager and d = ex_db
      and movement_data = md and current_user = ex_user and s = ex_disconnected
      and manager' = ex_manager, folded out_def]
  from t h have st: "store out = ex_db\<lparr>movimientos := movimientos ex_db @ [new_movement ex_env md],
                 movimientos_lineas := movimientos_lineas ex_db
                   @ new_lines (generated_id ex_env) (MovementCreate.lineas md)\<rparr>"
    by blast
  from t have ig: "result (create_movement (ex_env\<lparr>send_text := ex_disconnected\<rparr>) ex_manager ex_db md ex_user)
            = result out
        \<and> store (create_movement (ex_env\<lparr>send_text := ex_disconnected\<rparr>) ex_manager ex_db md ex_user)
            = store out"
    by blast
  from t h idt have br: "broadcasts out = [Nuevo_movimiento_registrado 8 ''salida'']"
    by (metis sum.simps(6))
  from ig h have 1: "result (create_movement (ex_env\<lparr>send_text := ex_disconnected\<rparr>) ex_manager ex_db md ex_user)
      = Inr (projr (result out))" by simp
  from ig st have 2: "movimientos (store (create_movement (ex_env\<lparr>send_text := ex_disconnected\<rparr>) ex_manager ex_db md ex_user))
      = movimientos ex_db @ [new_movement ex_env md]" by simp
  from 1 2 br show ?thesis unfolding out_def md_def by (intro conjI)
qed

text \<open>
  Claim C9 as stated fails when the read of the lines raises after the commit: the
  transaction has committed and nothing is broadcast.
\<close>

theorem create_movement_commit_without_broadcast_counterexample:
  "result (create_movement (ex_env_fault 5 (OperationalError ''connection lost'')) ex_manager ex_db
      (ex_request ''salida'' 2 [ex_linea 100 None None]) ex_user)
     = Inl (HTTPException 500 Error_de_conexion)
   \<and> create_movement_try (ex_env_fault 5 (OperationalError ''connection lost'')) ex_db
        (ex_request ''salida'' 2 [ex_linea 100 None None])
     = Inr (store (create_movement (ex_env_fault 5 (OperationalError ''connection lost''))
              ex_manager ex_db (ex_request ''salida'' 2 [ex_linea 100 None None]) ex_user))
   \<and> movimientos (store (create_movement (ex_env_fault 5 (OperationalError ''connection lost''))
        ex_manager ex_db (ex_request ''salida'' 2 [ex_linea 100 None None]) ex_user))
     = movimientos ex_db
       @ [\<lparr>Movement.id_mov = 8, Movement.fecha = 2000, Movement.tipo = ''salida'',
           Movement.id_usuario = 2\<rparr>]
   \<and> broadcasts (create_movement (ex_env_fault 5 (OperationalError ''connection lost''))
        ex_manager ex_db (ex_request ''salida'' 2 [ex_linea 100 None None]) ex_user) = []"
  by code_simp

section \<open>Properties of \<open>broadcast\<close>\<close>

lemma broadcast_loop_takeWhile:
  "fst (broadcast_loop s conns msg) = map (\<lambda>c. (c, msg)) (takeWhile (\<lambda>c. s c = None) conns)"
  by (induction conns) (auto split: option.splits prod.splits)

lemma broadcast_loop_raises:
  "snd (broadcast_loop s conns msg)
     = (case dropWhile (\<lambda>c. s c = None) conns of [] \<Rightarrow> None | c # rest \<Rightarrow> s c)"
  by (induction conns) (auto split: option.splits prod.splits)

text \<open>
  What the loop does: it serves the connections in list order up to the first one whose
  \<open>send_text\<close> raises, and ends with that exception.
\<close>

lemma broadcast_serves_prefix:
  "fst (broadcast snd_text self message)
     = map (\<lambda>c. (c, message)) (takeWhile (\<lambda>c. snd_text c = None) (active_connections self))
   \<and> snd (broadcast snd_text self message)
     = (case dropWhile (\<lambda>c. snd_text c = None) (active_connections self) of
          [] \<Rightarrow> None
        | c # rest \<Rightarrow> snd_text c)"
  by (simp add: broadcast_def broadcast_loop_takeWhile broadcast_loop_raises)

text \<open>
  Claim C2 at a broadcast to the connections 1 and 2, registered in that order, when only
  the peer of connection 1 is gone: the delivery to connection 1 raises, the exception
  ends the broadcast, and connection 2, whose delivery would succeed, receives nothing.
  The claim, like the docstring of \<open>broadcast\<close> (a message to all connected clients),
  has connection 2 receive the message.
\<close>

theorem broadcast_halts_at_failed_delivery:
  "active_connections ex_manager = [1, 2]
   \<and> ex_disconnected 1 = Some (Exception ''WebSocketDisconnect'')
   \<and> ex_disconnected 2 = None
   \<and> broadcast ex_disconnected ex_manager ''hola''
      = ([], Some (Exception ''WebSocketDisconnect''))
   \<and> (2, ''hola'') \<notin> set (fst (broadcast ex_disconnected ex_manager ''hola''))"
  by (simp add: ex_manager_def ex_disconnected_def broadcast_def)

section \<open>Properties of \<open>update_warehouse\<close>\<close>

lemma first_filter_Some:
  "\<exists>x \<in> set xs. P x \<Longrightarrow> \<exists>y. first (filter P xs) = Some y \<and> P y \<and> y \<in> set xs"
proof -
  assume "\<exists>x \<in> set xs. P x"
  then have "filter P xs \<noteq> []" by (simp add: filter_empty_conv)
  then obtain y ys where f: "filter P xs = y # ys" by (cases "filter P xs") auto
  then have "y \<in> set (filter P xs)" by simp
  then have "P y \<and> y \<in> set xs" by simp
  with f show ?thesis by (simp add: first_def)
qed

lemma first_Some_mem: "first xs = Some y \<Longrightarrow> y \<in> set xs"
  by (cases xs) (auto simp: first_def)

text \<open>
  Claim C10.  A request to \<open>update_warehouse\<close> that sets \<open>activo\<close> to false, for an
  existing warehouse with at least one row in \<open>stock\<close>, whatever the row's quantity, is
  answered 403 and leaves the database as it was, provided the two reads of the handler do
  not fail.  For an administrator the detail is that of the stock check; any other user is
  already refused, with 403 as well, by \<open>require_admin\<close>.
\<close>

theorem update_warehouse_stock_row_blocks_deactivation:
  "WarehouseUpdate.activo warehouse_update = Some False \<Longrightarrow>
   \<exists>s \<in> set (stock d). Stock.codigo_almacen s = cod \<Longrightarrow>
   \<exists>w \<in> set (almacen d). Warehouse.codigo w = cod \<Longrightarrow>
   fault e 0 = None \<Longrightarrow> fault e 1 = None \<Longrightarrow>
   update_warehouse e d cod warehouse_update user
     = (Inl (HTTPException 403
              (if is_admin_user user then Almacen_no_vacio cod else Sin_permisos_accion)), d)"
proof -
  assume a: "WarehouseUpdate.activo warehouse_update = Some False"
    and s: "\<exists>s \<in> set (stock d). Stock.codigo_almacen s = cod"
    and w: "\<exists>w \<in> set (almacen d). Warehouse.codigo w = cod"
    and f0: "fault e 0 = None" and f1: "fault e 1 = None"
  from first_filter_Some[of "stock d" "\<lambda>s. Stock.codigo_almacen s = cod", OF s]
  obtain sr where sr: "first (filter (\<lambda>s. Stock.codigo_almacen s = cod) (stock d)) = Some sr"
    by blast
  from first_filter_Some[of "almacen d" "\<lambda>w. Warehouse.codigo w = cod", OF w]
  obtain wr where wr: "first (filter (\<lambda>w. Warehouse.codigo w = cod) (almacen d)) = Some wr"
    by blast
  from f1 have f1': "fault e (Suc 0) = None" by simp
  show ?thesis
    by (simp add: update_warehouse_def require_admin_def is_admin_user_def a sr wr f0 f1')
qed

text \<open>Claim C10 at warehouse 1, whose only stock row has quantity 0.\<close>

theorem update_warehouse_stock_row_blocks_deactivation_witness:
  "WarehouseUpdate.activo \<lparr>WarehouseUpdate.descripcion = None, WarehouseUpdate.activo = Some False\<rparr>
     = Some False
   \<and> stock ex_db = [\<lparr>Stock.codigo_almacen = 1, Stock.codigo_producto = 100,
         Stock.lote = ''SIN_LOTE'', Stock.fecha_cad = None, Stock.cantidad = 0\<rparr>]
   \<and> is_admin_user ex_admin
   \<and> update_warehouse ex_env ex_db 1
        \<lparr>WarehouseUpdate.descripcion = None, WarehouseUpdate.activo = Some False\<rparr> ex_admin
      = (Inl (HTTPException 403 (Almacen_no_vacio 1)), ex_db)"
proof -
  have st: "stock ex_db = [\<lparr>Stock.codigo_almacen = 1, Stock.codigo_producto = 100,
         Stock.lote = ''SIN_LOTE'', Stock.fecha_cad = None, Stock.cantidad = 0\<rparr>]"
    by (simp add: ex_db_def)
  have s: "\<exists>s \<in> set (stock ex_db). Stock.codigo_almacen s = 1" by (simp add: st)
  have w: "\<exists>w \<in> set (almacen ex_db). Warehouse.codigo w = 1" by (simp add: ex_db_def)
  have f: "fault ex_env 0 = None" "fault ex_env 1 = None" by (simp_all add: ex_env_def)
  have a: "WarehouseUpdate.activo
             \<lparr>WarehouseUpdate.descripcion = None, WarehouseUpdate.activo = Some False\<rparr>
           = Some False" by simp
  from update_warehouse_stock_row_blocks_deactivation[OF a s w f, of ex_admin]
       ex_admin_is_admin a st
  show ?thesis by simp
qed

section \<open>Properties of the read side\<close>

lemma get_movements_statement_rows:
  "set (get_movements_statement e d u search tp fd fh uid)
     \<subseteq> {(m, n). m \<in> set (movimientos d) \<and> (is_admin_user u \<or> Movement.id_usuario m = user_id u)}"
proof -
  define st0 where "st0 = [(m, User.nombre u). m \<leftarrow> movimientos d, u \<leftarrow> db.usuario d,
                                 Movement.id_usuario m = user_id u]"
  define st1 where "st1 = (case search of
               Some s \<Rightarrow> if s \<noteq> [] then filter (\<lambda>(m, n). search_matches e n s) st0 else st0
             | None \<Rightarrow> st0)"
  define st2 where "st2 = (case tp of
               Some t \<Rightarrow> if t = ''entrada'' \<or> t = ''salida''
                         then filter (\<lambda>(m, n). Movement.tipo m = t) st1
                         else st1
             | None \<Rightarrow> st1)"
  define st3 where "st3 = (case fd of
               Some x \<Rightarrow> filter (\<lambda>(m, n). Movement.fecha m \<ge> datetime_of_date x) st2
             | None \<Rightarrow> st2)"
  define st4 where "st4 = (case fh of
               Some x \<Rightarrow> filter (\<lambda>(m, n). Movement.fecha m \<le> datetime_of_date x) st3
             | None \<Rightarrow> st3)"
  define st5 where "st5 = (case uid of
               Some x \<Rightarrow> if x \<noteq> 0 \<and> is_admin_user u
                           then filter (\<lambda>(m, n). Movement.id_usuario m = x) st4
                           else st4
             | None \<Rightarrow> st4)"
  define st6 where "st6 = (if \<not> is_admin_user u
             then filter (\<lambda>(m, n). Movement.id_usuario m = user_id u) st5
             else st5)"
  have eq: "get_movements_statement e d u search tp fd fh uid = st6"
    unfolding get_movements_statement_def Let_def st6_def st5_def st4_def st3_def st2_def
      st1_def st0_def ..
  have 0: "set st0 \<subseteq> {(m, n). m \<in> set (movimientos d)}"
    by (auto simp: st0_def)
  have 1: "set st1 \<subseteq> set st0" by (auto simp: st1_def split: option.splits)
  have 2: "set st2 \<subseteq> set st1" by (auto simp: st2_def split: option.splits)
  have 3: "set st3 \<subseteq> set st2" by (auto simp: st3_def split: option.splits)
  have 4: "set st4 \<subseteq> set st3" by (auto simp: st4_def split: option.splits)
  have 5: "set st5 \<subseteq> set st4" by (auto simp: st5_def split: option.splits)
  have 6: "set st6 \<subseteq> {(m, n). (m, n) \<in> set st5
                         \<and> (is_admin_user u \<or> Movement.id_usuario m = user_id u)}"
    by (auto simp: st6_def)
  from 0 1 2 3 4 5 6 show ?thesis unfolding eq by blast
qed

lemma get_movements_statement_subset:
  "(m, n) \<in> set (get_movements_statement e d u search tp fd fh uid) \<Longrightarrow>
   m \<in> set (movimientos d)"
  using get_movements_statement_rows[of e d u search tp fd fh uid] by auto

lemma get_movements_statement_owner:
  "\<not> is_admin_user u \<Longrightarrow>
   (m, n) \<in> set (get_movements_statement e d u search tp fd fh uid) \<Longrightarrow>
   Movement.id_usuario m = user_id u"
  using get_movements_statement_rows[of e d u search tp fd fh uid] by auto

lemma movements_response_rows:
  "movements_response e d k rows = Inr rs \<Longrightarrow> r \<in> set rs \<Longrightarrow>
   \<exists>(m, n) \<in> set rows.
      MovementBase.id_usuario r = Movement.id_usuario m
    \<and> MovementResponse.id_mov r = Movement.id_mov m
    \<and> (\<forall>l \<in> set (MovementResponse.lineas r). MovementLineResponse.id_mov l = Movement.id_mov m)"
proof (induction rows arbitrary: k rs)
  case Nil
  then show ?case by simp
next
  case (Cons row rows)
  obtain m n where row: "row = (m, n)" by (cases row)
  from Cons.prems(1) row obtain rs' where
    rest: "movements_response e d (Suc k) rows = Inr rs'"
    and rs: "rs = \<lparr>MovementBase.tipo = Movement.tipo m,
                        MovementBase.id_usuario = Movement.id_usuario m,
                        MovementResponse.id_mov = Movement.id_mov m,
                        MovementResponse.fecha = Movement.fecha m,
                        MovementResponse.nombre_usuario = n,
                        MovementResponse.lineas = map model_validate
                          (sort_key MovementLine.id_linea
                            (filter (\<lambda>l. MovementLine.id_mov l = Movement.id_mov m)
                               (movimientos_lineas d)))\<rparr> # rs'"
    by (auto simp: Let_def split: option.splits sum.splits)
  from Cons.prems(2) rs consider (hd) "r = hd rs" | (tl) "r \<in> set rs'" by auto
  then show ?case
  proof cases
    case hd
    with rs row show ?thesis by (auto simp: model_validate_def)
  next
    case tl
    from Cons.IH[OF rest tl] show ?thesis by auto
  qed
qed

lemma set_page_subset:
  "set (take lim (drop off (order_by_fecha_desc f rows))) \<subseteq> set rows"
proof -
  have "set (take lim (drop off (order_by_fecha_desc f rows)))
          \<subseteq> set (order_by_fecha_desc f rows)"
    by (meson set_take_subset set_drop_subset subset_trans)
  then show ?thesis by (simp add: order_by_fecha_desc_def)
qed

text \<open>
  The listing and the detail of movements restrict a caller who is not an administrator
  to their own movements: every movement returned is a movement of the database owned by
  the caller, with lines of that movement only.
\<close>

lemma movement_reads_ownership:
  "(\<not> is_admin_user current_user
      \<and> get_movements e d current_user lim off search tp fecha_desde fecha_hasta usuario_id = Inr page
      \<and> r \<in> set (PaginatedMovementsResponse.data page)
    \<longrightarrow> MovementBase.id_usuario r = user_id current_user
        \<and> (\<exists>m \<in> set (movimientos d).
              Movement.id_mov m = MovementResponse.id_mov r
            \<and> Movement.id_usuario m = user_id current_user)
        \<and> (\<forall>l \<in> set (MovementResponse.lineas r).
              MovementLineResponse.id_mov l = MovementResponse.id_mov r))
   \<and> (\<not> is_admin_user current_user \<and> get_movement e d mov_id current_user = Inr r'
    \<longrightarrow> MovementBase.id_usuario r' = user_id current_user
        \<and> MovementResponse.id_mov r' = mov_id
        \<and> (\<exists>m \<in> set (movimientos d).
              Movement.id_mov m = mov_id \<and> Movement.id_usuario m = user_id current_user)
        \<and> (\<forall>l \<in> set (MovementResponse.lineas r'). MovementLineResponse.id_mov l = mov_id))"
proof -
  have a: "MovementBase.id_usuario r = user_id current_user
        \<and> (\<exists>m \<in> set (movimientos d).
              Movement.id_mov m = MovementResponse.id_mov r
            \<and> Movement.id_usuario m = user_id current_user)
        \<and> (\<forall>l \<in> set (MovementResponse.lineas r).
              MovementLineResponse.id_mov l = MovementResponse.id_mov r)"
    if na: "\<not> is_admin_user current_user"
    and g: "get_movements e d current_user lim off search tp fecha_desde fecha_hasta usuario_id = Inr page"
    and r: "r \<in> set (PaginatedMovementsResponse.data page)"
  proof -
    let ?st = "get_movements_statement e d current_user search tp fecha_desde fecha_hasta usuario_id"
    let ?rows = "take lim (drop off (order_by_fecha_desc (\<lambda>(m, n). Movement.fecha m) ?st))"
    from g have mr: "movements_response e d 2 ?rows = Inr (PaginatedMovementsResponse.data page)"
      by (auto simp: get_movements_def Let_def split: option.splits sum.splits)
    from movements_response_rows[OF mr r] obtain m n where
      mn: "(m, n) \<in> set ?rows"
      and p: "MovementBase.id_usuario r = Movement.id_usuario m"
         "MovementResponse.id_mov r = Movement.id_mov m"
         "\<forall>l \<in> set (MovementResponse.lineas r). MovementLineResponse.id_mov l = Movement.id_mov m"
      by auto
    from set_page_subset[THEN subsetD, OF mn] have st: "(m, n) \<in> set ?st" .
    from get_movements_statement_owner[OF na st] get_movements_statement_subset[OF st] p
    show ?thesis by auto
  qed
  have b: "MovementBase.id_usuario r' = user_id current_user
        \<and> MovementResponse.id_mov r' = mov_id
        \<and> (\<exists>m \<in> set (movimientos d).
              Movement.id_mov m = mov_id \<and> Movement.id_usuario m = user_id current_user)
        \<and> (\<forall>l \<in> set (MovementResponse.lineas r'). MovementLineResponse.id_mov l = mov_id)"
    if na: "\<not> is_admin_user current_user"
    and g: "get_movement e d mov_id current_user = Inr r'"
  proof -
    from g obtain m where
      m: "first (filter (\<lambda>m. Movement.id_mov m = mov_id) (movimientos d)) = Some m"
      by (auto simp: get_movement_def split: option.splits)
    from first_Some_mem[OF m] have mem: "m \<in> set (movimientos d)" "Movement.id_mov m = mov_id"
      by auto
    from g m na have "Movement.id_usuario m = user_id current_user"
      and "MovementBase.id_usuario r' = Movement.id_usuario m"
      and "MovementResponse.id_mov r' = Movement.id_mov m"
      and "\<forall>l \<in> set (MovementResponse.lineas r'). MovementLineResponse.id_mov l = Movement.id_mov m"
      by (auto simp: get_movement_def Let_def model_validate_def split: option.splits if_splits)
    with mem show ?thesis by auto
  qed
  from a b show ?thesis by blast
qed

text \<open>
  Claim C4 at the four histories of stock movements, asked by user 2, who is not an
  administrator, of a database whose only movement, number 7, belongs to user 1.  The
  listing of movements returns user 2 nothing and the detail of movement 7 is refused
  with 403, as the claim says; each of the four histories returns user 2 the line of
  movement 7, with the name of its owner.
\<close>

theorem stock_histories_return_other_users_rows:
  "\<not> is_admin_user ex_user
   \<and> user_id ex_user = 2
   \<and> movimientos ex_db
       = [\<lparr>Movement.id_mov = 7, Movement.fecha = 1000, Movement.tipo = ''entrada'',
           Movement.id_usuario = 1\<rparr>]
   \<and> get_movements ex_env ex_db ex_user 10 0 None None None None None
       = Inr \<lparr>PaginatedMovementsResponse.data = [], PaginatedMovementsResponse.total = 0,
              PaginatedMovementsResponse.limit = 10, PaginatedMovementsResponse.offset = 0\<rparr>
   \<and> get_movement ex_env ex_db 7 ex_user = Inl (HTTPException 403 Sin_permisos_movimiento)
   \<and> get_stock_history ex_env ex_db ex_user 10 0
       = Inr \<lparr>PaginatedStockHistory.data =
               [\<lparr>StockHistory.id_movimiento = 7, StockHistory.fecha = 1000,
                 StockHistory.tipo = ''entrada'', StockHistory.codigo_almacen = 1,
                 StockHistory.codigo_producto = 100, StockHistory.sku_producto = ''ABC100'',
                 StockHistory.lote = ''L1'', StockHistory.cantidad = 4,
                 StockHistory.usuario = ''Ana''\<rparr>],
              PaginatedStockHistory.total = 1, PaginatedStockHistory.limit = 10,
              PaginatedStockHistory.offset = 0\<rparr>
   \<and> get_product_stock_history ex_env ex_db 100 ex_user 10 0
       = get_stock_history ex_env ex_db ex_user 10 0
   \<and> get_warehouse_stock_history ex_env ex_db 1 ex_user 10 0
       = get_stock_history ex_env ex_db ex_user 10 0
   \<and> get_warehouse_and_product_stock_history ex_env ex_db 100 1 ex_user 10 0
       = get_stock_history ex_env ex_db ex_user 10 0"
  by code_simp

end
